theory Spec2Isabelle
  imports Complex_Main "HOL-Library.Log_Nat"
begin

section \<open>The canvas of topology.js (packages/core/src/canvas/canvas.ts)\<close>

text \<open>
  A shallow embedding of the class \<open>Canvas\<close>: its fields and the fields of the
  \<open>TopologyStore\<close> it holds are one record, every method is a function from the state
  before the call to the state after it, and a \<open>TypeError\<close> thrown by a property read
  on \<open>undefined\<close> is the value \<open>Inl TypeError\<close>.

  JavaScript numbers are modelled as real numbers: no \<open>NaN\<close>, no \<open>Infinity\<close> except
  where the source tests for it (the argument of \<open>render\<close>). A division whose divisor
  is zero is 0 here and \<open>Infinity\<close> or \<open>NaN\<close> in the source; the two places where the
  source divides (\<open>resizePens\<close>, \<open>scale\<close>) say so. The sums, differences, products and
  quotients of \<open>resizePens\<close>, which accumulate over the moves of a gesture, are rounded
  as IEEE 754 doubles round them; elsewhere the arithmetic is exact.
\<close>

subsection \<open>Doubles\<close>

text \<open>The exponent of a number that is not zero: the integer \<open>e\<close> with
  \<open>2^e \<le> |x| < 2^(e+1)\<close>.\<close>

definition expo :: "real \<Rightarrow> int" where
  "expo x = (if 1 \<le> \<bar>x\<bar> then bitlen \<lfloor>\<bar>x\<bar>\<rfloor> - 1 else - bitlen (\<lceil>1 / \<bar>x\<bar>\<rceil> - 1))"

definition pow2 :: "int \<Rightarrow> real" where
  "pow2 k = (if 0 \<le> k then 2 ^ nat k else 1 / 2 ^ nat (- k))"

text \<open>The integer nearest to a number, the even one of two that are equally near.\<close>

definition roundEven :: "real \<Rightarrow> int" where
  "roundEven y =
     (let f = \<lfloor>y\<rfloor>; d = y - of_int f
      in if d < 1 / 2 then f else if 1 / 2 < d then f + 1 else if even f then f else f + 1)"

text \<open>
  The double nearest to a real number (binary64, round to nearest, ties to even): 53
  significant bits, spaced \<open>2^(e-52)\<close> apart at exponent \<open>e\<close> and \<open>2^(-1074)\<close> apart below
  \<open>2^(-1022)\<close>. A result beyond the largest double, which is \<open>Infinity\<close> in JavaScript,
  is not told apart.
\<close>

definition toDouble :: "real \<Rightarrow> real" where
  "toDouble x =
     (if x = 0 then 0
      else (let q = max (expo x) (- 1022) - 52
            in of_int (roundEven (x / pow2 q)) * pow2 q))"

text \<open>The operators \<open>+\<close>, \<open>-\<close>, \<open>*\<close> and \<open>/\<close> of JavaScript on two doubles.\<close>

definition add64 :: "real \<Rightarrow> real \<Rightarrow> real" where
  "add64 a b = toDouble (a + b)"

definition sub64 :: "real \<Rightarrow> real \<Rightarrow> real" where
  "sub64 a b = toDouble (a - b)"

definition mul64 :: "real \<Rightarrow> real \<Rightarrow> real" where
  "mul64 a b = toDouble (a * b)"

definition div64 :: "real \<Rightarrow> real \<Rightarrow> real" where
  "div64 a b = toDouble (a / b)"

subsection \<open>Points, anchors, rectangles\<close>

record point =
  pt_x :: real
  pt_y :: real

text \<open>
  Modelled from the spec: the enumeration \<open>PrevNextType\<close> of \<open>../point\<close> is declared
  outside the sources. The spec: "mirrored / independent / bilateral-mirrored";
  \<open>canvas.ts\<close> names \<open>Mirror\<close> and \<open>Bilateral\<close> and steps through three values from
  \<open>Mirror\<close>, which it treats as unset: an anchor whose \<open>prevNextType\<close> is unset or
  \<open>Mirror\<close> passes the test \<open>!anchor.prevNextType\<close>.
\<close>

datatype PrevNextType = Mirror | Bilateral | Free

text \<open>A \<open>Point\<close> that is an anchor of a pen: its position, the bezier handles
  \<open>prev\<close> and \<open>next\<close>, and the binding to another pen's anchor.\<close>

record anchor =
  anchor_x :: real
  anchor_y :: real
  anchor_id :: string
  anchor_penId :: "string option"
  anchor_connectTo :: "string option"
  anchor_anchorId :: "string option"
  anchor_prev :: "point option"
  anchor_next :: "point option"
  anchor_prevNextType :: "PrevNextType option"

definition anchor_pt :: "anchor \<Rightarrow> point" where
  "anchor_pt a = \<lparr>pt_x = anchor_x a, pt_y = anchor_y a\<rparr>"

text \<open>JavaScript truthiness of an optional string: \<open>undefined\<close> and the empty string
  are falsy.\<close>

definition truthy :: "string option \<Rightarrow> bool" where
  "truthy v = (case v of None \<Rightarrow> False | Some t \<Rightarrow> t \<noteq> [])"

record rect =
  rect_x :: real
  rect_y :: real
  rect_width :: real
  rect_height :: real
  rect_ex :: real
  rect_ey :: real
  rect_rotate :: real
  rect_center :: point

text \<open>
  Modelled from the spec: \<open>rotatePoint\<close> of \<open>../point\<close> is not among the sources. The
  spec names it "point rotate-around-center", by an angle in degrees; the sense of the
  rotation is that of \<open>ctx.rotate((rotate * Math.PI) / 180)\<close> about the center, with which
  \<open>renderBorder\<close> draws the rectangle whose handles these points are. The source
  updates the point in place; the model returns the rotated point.
\<close>

definition rotatePoint :: "point \<Rightarrow> real \<Rightarrow> point \<Rightarrow> point" where
  "rotatePoint pt angle center =
     (let a = angle * pi / 180;
          dx = pt_x pt - pt_x center;
          dy = pt_y pt - pt_y center
      in \<lparr>pt_x = dx * cos a - dy * sin a + pt_x center,
          pt_y = dx * sin a + dy * cos a + pt_y center\<rparr>)"

text \<open>
  Modelled from the spec: \<open>rectToPoints\<close> of \<open>../rect\<close> is not among the sources. The
  spec: "take the 4 rect corners (via rect\<rightarrow>points) ... rotate every point about the
  rect's center by \<open>activeRect.rotate\<close> degrees", "corners first, in a canonical winding".
  The winding is the one \<open>resizePens\<close> gives the indices 0 to 3: top-left, top-right,
  bottom-right, bottom-left.
\<close>

definition rectToPoints :: "rect \<Rightarrow> point list" where
  "rectToPoints r =
     map (\<lambda>p. rotatePoint p (rect_rotate r) (rect_center r))
       [\<lparr>pt_x = rect_x r, pt_y = rect_y r\<rparr>,
        \<lparr>pt_x = rect_ex r, pt_y = rect_y r\<rparr>,
        \<lparr>pt_x = rect_ex r, pt_y = rect_ey r\<rparr>,
        \<lparr>pt_x = rect_x r, pt_y = rect_ey r\<rparr>]"

text \<open>
  Modelled from the spec: \<open>calcCenter\<close> of \<open>../rect\<close> is not among the sources. The
  spec: the center of a rect is "recomputed" from the rect; nothing else of it changes.
\<close>

definition calcCenter :: "rect \<Rightarrow> rect" where
  "calcCenter r =
     r\<lparr>rect_center := \<lparr>pt_x = rect_x r + rect_width r / 2, pt_y = rect_y r + rect_height r / 2\<rparr>\<rparr>"

subsection \<open>Pens\<close>

text \<open>
  Modelled from the spec: the enumerations \<open>PenType\<close>, \<open>LockState\<close>, \<open>HoverType\<close>
  and \<open>HotkeyType\<close> are declared outside the sources. \<open>canvas.ts\<close> tests a pen's type
  for truthiness (a line is truthy), a lock for truthiness and for equality with
  \<open>LockState.Disable\<close> ("Disable > DisableMove > normal"), and the modes by equality and
  truthiness (the first member is falsy). \<open>HoverType.None\<close>, \<open>HoverType.Line\<close> and
  \<open>HoverType.Node\<close> are \<open>NoHover\<close>, \<open>HoverLine\<close> and \<open>HoverNode\<close> here, and the
  hotkeys carry the prefix \<open>Hot\<close>.
\<close>

datatype PenType = Node | Line

datatype LockState = Unlocked | DisableMove | Disable

datatype HoverType =
  NoHover | HoverLine | HoverNode | NodeAnchor | LineAnchor | LineAnchorPrev | LineAnchorNext
  | Resize | Rotate

datatype HotkeyType = NoHotkey | HotTranslate | HotSelect | HotResize | HotAddAnchor

text \<open>A \<open>TopologyPen\<close> with its \<open>calculative\<close> sub-record flattened into the fields
  \<open>worldRect\<close> to \<open>calc_dirty\<close>.\<close>

record pen =
  pen_id :: string
  pen_name :: string
  pen_x :: real
  pen_y :: real
  pen_width :: real
  pen_height :: real
  pen_rotate :: real
  pen_type :: PenType
  pen_parentId :: "string option"
  pen_locked :: LockState
  pen_visible :: bool
  pen_from :: "anchor option"
  pen_to :: "anchor option"
  pen_anchors :: "anchor list option"
  worldRect :: rect
  worldFrom :: "anchor option"
  worldTo :: "anchor option"
  worldAnchors :: "anchor list option"
  activeAnchor :: "anchor option"
  calc_active :: bool
  calc_hover :: bool
  calc_dirty :: bool

subsection \<open>The state\<close>

text \<open>
  Pens are objects shared between \<open>store.data.pens\<close>, \<open>store.pens\<close>, \<open>store.active\<close>,
  \<open>store.hover\<close> and \<open>drawingLine\<close>: the state holds them once, in \<open>obj\<close>, under a
  reference, and those fields hold references. \<open>activeRect\<close> and \<open>store.anchor\<close> are
  held by value; where \<open>calcActiveRect\<close> makes \<open>activeRect\<close> the very object that is a
  pen's \<open>worldRect\<close>, the model writes the pen's \<open>worldRect\<close> too. The sharing is not
  followed further: \<open>calcWorldRects\<close>, \<open>getLineRect\<close> and \<open>getRect\<close> are taken to
  give a pen, or the selection, a rect object of its own, so that a later write to
  \<open>activeRect\<close> is a write to \<open>activeRect\<close> only, and a write to the handles of
  \<open>store.anchor\<close> is not seen in the pen that holds the anchor.

  What the canvas sends out is logged: the events given to \<open>store.emitter.emit\<close> in
  \<open>emitted\<close>, the calls of \<open>requestAnimationFrame(this.render)\<close> counted in
  \<open>frames\<close>, the redraws (the body of \<open>render\<close> from \<open>clearRect\<close> to \<open>drawImage\<close>)
  counted in \<open>redraws\<close>. A cached path \<open>store.path2dMap.set(pen, penPaths[pen.name](pen))\<close>
  is the pen the path was built from. Writes to \<open>externalElements.style.cursor\<close> are
  presentation only and are left out.
\<close>

type_synonym ref = nat

datatype event =
  AddPen ref | Active "ref list" | Enter ref | Leave ref | Scale real

datatype history = HistoryAdd ref

datatype error = TypeError

record canvas =
  data_pens :: "ref list"
  data_x :: real
  data_y :: real
  data_scale :: real
  data_center :: point
  data_locked :: LockState
  options_interval :: real
  options_minScale :: real
  options_maxScale :: real
  options_disableRotate :: bool
  options_disableAnchor :: bool
  obj :: "ref \<Rightarrow> pen"
  store_pens :: "string \<Rightarrow> ref option"
  store_active :: "ref list"
  store_hover :: "ref option"
  store_lastHover :: "ref option"
  store_anchor :: "anchor option"
  store_pointAt :: "point option"
  store_pointAtIndex :: "nat option"
  histories :: "history list"
  emitted :: "event list"
  path2dMap :: "ref \<Rightarrow> pen option"
  animate_size :: nat
  activeRect :: "rect option"
  lastRotate :: real
  sizeCPs :: "point list option"
  activeInitPos :: "point list"
  hoverType :: HoverType
  resizeIndex :: nat
  mouseDown :: "point option"
  hotkeyType :: HotkeyType
  lastOffsetX :: real
  lastOffsetY :: real
  drawingLineName :: "string option"
  drawingLine :: "ref option"
  prevAnchor :: "point option"
  nextAnchor :: "point option"
  dirty :: bool
  lastRender :: real
  pointSize :: real
  beforeAddPen :: "(pen \<Rightarrow> bool) option"
  frames :: nat
  redraws :: nat

subsection \<open>The render scheduler\<close>

text \<open>The argument of \<open>render(now?: number)\<close>: absent, a time stamp, or the sentinel
  \<open>Infinity\<close>.\<close>

datatype now_arg = NoArg | Stamp real | Infinity

text \<open>\<open>Canvas.render\<close>; \<open>pnow\<close> is what \<open>performance.now()\<close> returns during the call.\<close>

definition render :: "real \<Rightarrow> now_arg \<Rightarrow> canvas \<Rightarrow> canvas" where
  "render pnow now_a s =
     (let s1 = (if now_a = Infinity then s\<lparr>dirty := True\<rparr> else s);
          now = (case now_a of Infinity \<Rightarrow> pnow | NoArg \<Rightarrow> pnow | Stamp t \<Rightarrow> t)
      in if \<not> dirty s1 then s1
         else if now - lastRender s1 < options_interval s1 then s1\<lparr>frames := frames s1 + 1\<rparr>
         else (let s2 = s1\<lparr>lastRender := now, redraws := redraws s1 + 1, dirty := False\<rparr>
               in if animate_size s2 \<noteq> 0 then s2\<lparr>frames := frames s2 + 1\<rparr> else s2))"

subsection \<open>The size control points\<close>

text \<open>\<open>Canvas.getSizeCPs\<close>: the points of \<open>rectToPoints\<close>, then the midpoints of the
  top, right, bottom and left edges, each rotated about the center.\<close>

definition getSizeCPs :: "canvas \<Rightarrow> error + canvas" where
  "getSizeCPs s =
     (case activeRect s of
        None \<Rightarrow> Inl TypeError
      | Some r \<Rightarrow>
          Inr (s\<lparr>sizeCPs := Some (rectToPoints r @
            [rotatePoint \<lparr>pt_x = rect_x r + rect_width r * 0.5, pt_y = rect_y r\<rparr>
               (rect_rotate r) (rect_center r),
             rotatePoint \<lparr>pt_x = rect_ex r, pt_y = rect_y r + rect_height r * 0.5\<rparr>
               (rect_rotate r) (rect_center r),
             rotatePoint \<lparr>pt_x = rect_x r + rect_width r * 0.5, pt_y = rect_ey r\<rparr>
               (rect_rotate r) (rect_center r),
             rotatePoint \<lparr>pt_x = rect_x r, pt_y = rect_y r + rect_height r * 0.5\<rparr>
               (rect_rotate r) (rect_center r)])\<rparr>))"

subsection \<open>The helpers of the other modules\<close>

text \<open>
  \<open>canvas.ts\<close> imports these functions from \<open>../pen\<close>, \<open>../point\<close>, \<open>../rect\<close> and
  \<open>../common-diagram\<close>, which are not among the sources, and the spec says too little
  of them to model them: they are parameters, and every statement below holds for all
  of them. A helper that updates its argument in place returns the updated argument,
  and is taken to change nothing else. \<open>translateRect\<close> is called on a rect and on a
  pen: \<open>translateRectPen\<close> is the same helper at a pen. \<open>drawLineFns\<close> is the
  dispatch \<open>this[this.drawingLineName]\<close> on the line-drawing functions. A helper
  that is given \<open>undefined\<close> where it expects an object is taken to throw, as a
  property read does; \<open>pointInRect\<close>, which \<open>getHover\<close> calls with an unset
  \<open>activeRect\<close> whenever nothing is selected, takes the optional rect.
\<close>

record externals =
  calcWorldRects :: "(string \<Rightarrow> pen option) \<Rightarrow> pen \<Rightarrow> pen"
  calcWorldAnchors :: "pen \<Rightarrow> pen"
  calcIconRect :: "(string \<Rightarrow> pen option) \<Rightarrow> pen \<Rightarrow> pen"
  calcTextRect :: "pen \<Rightarrow> pen"
  scalePen :: "pen \<Rightarrow> real \<Rightarrow> point \<Rightarrow> pen"
  translateLine :: "pen \<Rightarrow> real \<Rightarrow> real \<Rightarrow> pen"
  translateRect :: "rect \<Rightarrow> real \<Rightarrow> real \<Rightarrow> rect"
  translateRectPen :: "pen \<Rightarrow> real \<Rightarrow> real \<Rightarrow> pen"
  getLineRect :: "pen \<Rightarrow> rect"
  calcRelativePoint :: "anchor \<Rightarrow> rect \<Rightarrow> anchor"
  pointInLine :: "point \<Rightarrow> pen \<Rightarrow> (nat \<times> point) option"
  hitPoint :: "point \<Rightarrow> point \<Rightarrow> real \<Rightarrow> bool"
  pointInRect :: "point \<Rightarrow> rect option \<Rightarrow> bool"
  getRect :: "pen list \<Rightarrow> rect"
  calcRotate :: "point \<Rightarrow> point \<Rightarrow> real"
  drawLineFns :: "string \<Rightarrow> (pen \<Rightarrow> point option \<Rightarrow> pen) option"

text \<open>Sequencing of calls that may throw.\<close>

definition andThen :: "error + 'a \<Rightarrow> ('a \<Rightarrow> error + 'b) \<Rightarrow> error + 'b" where
  "andThen m f = (case m of Inl e \<Rightarrow> Inl e | Inr v \<Rightarrow> f v)"

text \<open>An update of the pen object under a reference, and the view \<open>store.pens\<close> gives
  of the pens by id.\<close>

definition upd_pen :: "ref \<Rightarrow> (pen \<Rightarrow> pen) \<Rightarrow> canvas \<Rightarrow> canvas" where
  "upd_pen r f s = s\<lparr>obj := (obj s)(r := f (obj s r))\<rparr>"

definition pens_by_id :: "canvas \<Rightarrow> string \<Rightarrow> pen option" where
  "pens_by_id s = (\<lambda>i. map_option (obj s) (store_pens s i))"

definition set_path :: "ref \<Rightarrow> canvas \<Rightarrow> canvas" where
  "set_path r s = s\<lparr>path2dMap := (path2dMap s)(r := Some (obj s r))\<rparr>"

subsection \<open>Recomputing a pen\<close>

text \<open>\<open>Canvas.dirtyPenRect\<close>.\<close>

definition dirtyPenRect :: "externals \<Rightarrow> ref \<Rightarrow> canvas \<Rightarrow> canvas" where
  "dirtyPenRect X r s =
     (let s1 = upd_pen r (calcWorldRects X (pens_by_id s)) s;
          s2 = upd_pen r (calcWorldAnchors X) s1;
          s3 = upd_pen r (calcIconRect X (pens_by_id s2)) s2;
          s4 = upd_pen r (calcTextRect X) s3
      in (set_path r s4)\<lparr>dirty := True\<rparr>)"

text \<open>The rect of a line written to the line: the first assignments of
  \<open>initLineRect\<close> and of \<open>finishDrawline\<close>.\<close>

definition lineRect :: "externals \<Rightarrow> pen \<Rightarrow> pen" where
  "lineRect X p =
     (let rect = getLineRect X p
      in p\<lparr>pen_x := rect_x rect, pen_y := rect_y rect, pen_width := rect_width rect,
           pen_height := rect_height rect, worldRect := rect\<rparr>)"

text \<open>\<open>Canvas.initLineRect\<close>.\<close>

definition initLineRect :: "externals \<Rightarrow> ref \<Rightarrow> canvas \<Rightarrow> error + canvas" where
  "initLineRect X r s =
     (let s1 = upd_pen r (lineRect X) s;
          s2 = set_path r s1
      in case worldFrom (obj s2 r) of
           None \<Rightarrow> Inl TypeError
         | Some wfrom \<Rightarrow>
             (let s3 = upd_pen r (\<lambda>p. p\<lparr>pen_from := Some (calcRelativePoint X wfrom (worldRect p))\<rparr>) s2
              in case worldTo (obj s3 r) of
                   None \<Rightarrow> Inl TypeError
                 | Some wt \<Rightarrow>
                     (let s4 = upd_pen r
                            (\<lambda>p. p\<lparr>pen_to := Some (calcRelativePoint X wt (worldRect p))\<rparr>) s3;
                          s5 = (case worldAnchors (obj s4 r) of
                                  None \<Rightarrow> s4
                                | Some was \<Rightarrow>
                                    upd_pen r (\<lambda>p. p\<lparr>pen_anchors :=
                                      Some (map (\<lambda>a. calcRelativePoint X a (worldRect p)) was)\<rparr>) s4)
                      in Inr (upd_pen r (\<lambda>p. p\<lparr>calc_dirty := False\<rparr>) s5))))"

subsection \<open>The active selection\<close>

text \<open>\<open>Canvas.calcActiveRect\<close>. With one pen selected \<open>activeRect\<close> is that pen's
  \<open>calculative.worldRect\<close> object: the rotation and the center written to it are
  written to the pen.\<close>

definition calcActiveRect :: "externals \<Rightarrow> canvas \<Rightarrow> error + canvas" where
  "calcActiveRect X s =
     (let s1 =
        (if length (store_active s) = 1 then
           (let a = store_active s ! 0;
                r = calcCenter ((worldRect (obj s a))\<lparr>rect_rotate := pen_rotate (obj s a)\<rparr>)
            in (upd_pen a (\<lambda>p. p\<lparr>worldRect := r\<rparr>) s)\<lparr>activeRect := Some r\<rparr>)
         else
           s\<lparr>activeRect := Some ((getRect X (map (obj s) (store_active s)))\<lparr>rect_rotate := 0\<rparr>)\<rparr>)
      in getSizeCPs (s1\<lparr>lastRotate := 0\<rparr>))"

text \<open>\<open>Canvas.active\<close>.\<close>

definition active :: "externals \<Rightarrow> ref list \<Rightarrow> canvas \<Rightarrow> error + canvas" where
  "active X pens s =
     (let s1 = fold (\<lambda>r. upd_pen r (\<lambda>p. p\<lparr>calc_active := False\<rparr>)) (store_active s) s;
          s2 = s1\<lparr>store_active := []\<rparr>;
          s3 = fold (\<lambda>r. upd_pen r (\<lambda>p. p\<lparr>calc_active := True\<rparr>)) pens s2;
          s4 = s3\<lparr>store_active := store_active s3 @ pens\<rparr>
      in andThen (calcActiveRect X s4)
           (\<lambda>s5. Inr (s5\<lparr>dirty := True, emitted := emitted s5 @ [Active (store_active s5)]\<rparr>)))"

subsection \<open>Drawing a line\<close>

text \<open>\<open>Canvas.drawline\<close>.\<close>

definition drawline :: "externals \<Rightarrow> point option \<Rightarrow> canvas \<Rightarrow> canvas" where
  "drawline X mouse s =
     (case drawingLine s of
        None \<Rightarrow> s
      | Some r \<Rightarrow>
          (let s1 = upd_pen r (\<lambda>p. p\<lparr>calc_active := True\<rparr>) s;
               s2 = (case drawingLineName s1 of
                       None \<Rightarrow> s1
                     | Some n \<Rightarrow>
                         (case drawLineFns X n of
                            None \<Rightarrow> s1
                          | Some f \<Rightarrow> upd_pen r (\<lambda>p. f p mouse) s1))
           in (set_path r s2)\<lparr>dirty := True\<rparr>))"

text \<open>The test \<open>!this.beforeAddPen || this.beforeAddPen(pen)\<close>.\<close>

definition hookAccepts :: "canvas \<Rightarrow> pen \<Rightarrow> bool" where
  "hookAccepts s p = (case beforeAddPen s of None \<Rightarrow> True | Some ok \<Rightarrow> ok p)"

text \<open>The last three statements of \<open>finishDrawline\<close>: \<open>this.drawline()\<close>,
  \<open>this.render()\<close>, \<open>this.drawingLine = undefined\<close>.\<close>

definition finishTail :: "externals \<Rightarrow> real \<Rightarrow> canvas \<Rightarrow> error + canvas" where
  "finishTail X pnow s = Inr ((render pnow NoArg (drawline X None s))\<lparr>drawingLine := None\<rparr>)"

text \<open>\<open>finishDrawline\<close> from \<open>this.drawingLine.calculative.activeAnchor = ...\<close> on:
  the line \<open>r\<close> is added unless the hook refuses it.\<close>

definition setActiveAnchor :: "pen \<Rightarrow> pen" where
  "setActiveAnchor p = p\<lparr>activeAnchor := worldTo p\<rparr>"

definition addLine :: "externals \<Rightarrow> real \<Rightarrow> ref \<Rightarrow> canvas \<Rightarrow> error + canvas" where
  "addLine X pnow r s =
     (let s1 = upd_pen r setActiveAnchor s
      in if hookAccepts s1 (obj s1 r) then
           andThen (initLineRect X r s1) (\<lambda>s2.
             (let s3 = s2\<lparr>data_pens := data_pens s2 @ [r]\<rparr>;
                  s4 = s3\<lparr>store_pens := (store_pens s3)(pen_id (obj s3 r) := Some r)\<rparr>;
                  s5 = s4\<lparr>emitted := emitted s4 @ [AddPen r]\<rparr>
              in andThen (active X [r] s5) (\<lambda>s6.
                   finishTail X pnow (s6\<lparr>histories := histories s6 @ [HistoryAdd r]\<rparr>))))
         else finishTail X pnow s1)"

text \<open>The test \<open>worldTo && worldTo.connectTo\<close> on the line being drawn.\<close>

definition toConnected :: "pen \<Rightarrow> bool" where
  "toConnected p = (case worldTo p of None \<Rightarrow> False | Some wt \<Rightarrow> truthy (anchor_connectTo wt))"

text \<open>\<open>worldTo = worldAnchors.pop()\<close> on the anchors \<open>was\<close> of the line, and the
  unbinding of an end point that is bound to the line itself.\<close>

definition popAnchor :: "anchor list \<Rightarrow> pen \<Rightarrow> pen" where
  "popAnchor was p =
     (let wt = last was;
          wt' = (if anchor_connectTo wt = Some (pen_id p)
                 then wt\<lparr>anchor_connectTo := None\<rparr> else wt)
      in p\<lparr>worldAnchors := Some (butlast was), worldTo := Some wt'\<rparr>)"

text \<open>\<open>Canvas.finishDrawline\<close>; \<open>end'\<close> is its parameter \<open>end\<close>, true on the
  right-click path of \<open>onMouseDown\<close>.\<close>

definition finishDrawline :: "externals \<Rightarrow> real \<Rightarrow> bool \<Rightarrow> canvas \<Rightarrow> error + canvas" where
  "finishDrawline X pnow end' s =
     (case drawingLine s of
        None \<Rightarrow> finishTail X pnow s
      | Some r \<Rightarrow>
          (let s1 = upd_pen r (lineRect X) s
           in if \<not> end' \<and> \<not> toConnected (obj s1 r) then
                (case worldAnchors (obj s1 r) of
                   None \<Rightarrow> Inl TypeError
                 | Some was \<Rightarrow>
                     if was \<noteq> [] then addLine X pnow r (upd_pen r (popAnchor was) s1)
                     else Inr (render pnow Infinity (s1\<lparr>drawingLine := None\<rparr>)))
              else addLine X pnow r s1))"

subsection \<open>The hit-test resolver\<close>

text \<open>\<open>Canvas.inAnchor\<close> returns the classification and updates \<open>store.anchor\<close> and
  \<open>store.hover\<close>. The source compares \<open>anchor !== this.store.anchor\<close> by identity;
  \<open>getHover\<close> has cleared \<open>store.anchor\<close> before its first call and leaves its loops
  at the first hit, so the comparison is against \<open>undefined\<close> there.\<close>

definition inAnchor :: "externals \<Rightarrow> point \<Rightarrow> ref \<Rightarrow> anchor option \<Rightarrow> canvas \<Rightarrow> HoverType \<times> canvas" where
  "inAnchor X pt r anc s =
     (case anc of
        None \<Rightarrow> (NoHover, s)
      | Some a \<Rightarrow>
          if hitPoint X pt (anchor_pt a) (pointSize s) then
            (let s1 = (if store_anchor s \<noteq> Some a then s\<lparr>dirty := True\<rparr> else s);
                 s2 = s1\<lparr>store_anchor := Some a, store_hover := Some r\<rparr>
             in if pen_name (obj s r) = ''line'' then (LineAnchor, s2) else (NodeAnchor, s2))
          else if pen_name (obj s r) = ''line'' then
            (if calc_active (obj s r) \<and>
                (case anchor_prev a of None \<Rightarrow> False | Some q \<Rightarrow> hitPoint X pt q (pointSize s)) then
               (LineAnchorPrev, s\<lparr>store_anchor := Some a, store_hover := Some r\<rparr>)
             else if calc_active (obj s r) \<and>
                (case anchor_next a of None \<Rightarrow> False | Some q \<Rightarrow> hitPoint X pt q (pointSize s)) then
               (LineAnchorNext, s\<lparr>store_anchor := Some a, store_hover := Some r\<rparr>)
             else (NoHover, s))
          else (NoHover, s))"

text \<open>The loop \<open>for (const anchor of pen.calculative.worldAnchors)\<close> of \<open>getHover\<close>.\<close>

fun inAnchors :: "externals \<Rightarrow> point \<Rightarrow> ref \<Rightarrow> anchor list \<Rightarrow> canvas \<Rightarrow> HoverType \<times> canvas" where
  "inAnchors X pt r [] s = (NoHover, s)"
| "inAnchors X pt r (a # as) s =
     (case inAnchor X pt r (Some a) s of
        (h, s1) \<Rightarrow> if h \<noteq> NoHover then (h, s1) else inAnchors X pt r as s1)"

text \<open>The anchors of one pen: \<open>worldFrom\<close>, \<open>worldTo\<close>, then \<open>worldAnchors\<close>.\<close>

definition penAnchors :: "externals \<Rightarrow> point \<Rightarrow> ref \<Rightarrow> canvas \<Rightarrow> HoverType \<times> canvas" where
  "penAnchors X pt r s =
     (case inAnchor X pt r (worldFrom (obj s r)) s of
        (h1, s1) \<Rightarrow>
          if h1 \<noteq> NoHover then (h1, s1)
          else (case inAnchor X pt r (worldTo (obj s1 r)) s1 of
                  (h2, s2) \<Rightarrow>
                    if h2 \<noteq> NoHover then (h2, s2)
                    else (case worldAnchors (obj s2 r) of
                            None \<Rightarrow> (NoHover, s2)
                          | Some was \<Rightarrow> inAnchors X pt r was s2)))"

text \<open>The loop of \<open>getHover\<close> over \<open>store.data.pens\<close>, from the last pen to the first;
  the list is the pens still to visit.\<close>

fun hoverPens :: "externals \<Rightarrow> point \<Rightarrow> ref list \<Rightarrow> canvas \<Rightarrow> HoverType \<times> canvas" where
  "hoverPens X pt [] s = (NoHover, s)"
| "hoverPens X pt (r # rs) s =
     (if \<not> pen_visible (obj s r) \<or> pen_locked (obj s r) = Disable then hoverPens X pt rs s
      else
        (case (if data_locked s = Unlocked \<and> \<not> options_disableAnchor s \<and> hotkeyType s \<noteq> HotResize
               then penAnchors X pt r s else (NoHover, s)) of
           (h, s1) \<Rightarrow>
             if h \<noteq> NoHover then (h, s1)
             else if pen_type (obj s1 r) = Line then
               (case pointInLine X pt (obj s1 r) of
                  Some (i, q) \<Rightarrow>
                    (HoverLine, s1\<lparr>store_hover := Some r, store_pointAt := Some q,
                                   store_pointAtIndex := Some i\<rparr>)
                | None \<Rightarrow> hoverPens X pt rs s1)
             else if pointInRect X pt (Some (worldRect (obj s1 r))) then
               (HoverNode, s1\<lparr>store_hover := Some r, store_pointAt := Some pt\<rparr>)
             else hoverPens X pt rs s1))"

text \<open>The loops \<open>for (let i = 0; i < 4; i++)\<close> and \<open>for (let i = 4; i < 8; i++)\<close> over
  \<open>sizeCPs\<close>: the first index of the list whose point is hit.\<close>

fun firstHit :: "externals \<Rightarrow> point \<Rightarrow> real \<Rightarrow> point list option \<Rightarrow> nat list \<Rightarrow> error + nat option" where
  "firstHit X pt sz cps [] = Inr None"
| "firstHit X pt sz cps (i # is) =
     (case cps of
        None \<Rightarrow> Inl TypeError
      | Some ps \<Rightarrow>
          if i < length ps then
            (if hitPoint X pt (ps ! i) sz then Inr (Some i) else firstHit X pt sz cps is)
          else Inl TypeError)"

text \<open>The test \<open>this.store.active.length === 1 && this.store.active[0].type\<close>.\<close>

definition activeLine :: "canvas \<Rightarrow> bool" where
  "activeLine s = (length (store_active s) = 1 \<and> pen_type (obj s (store_active s ! 0)) = Line)"

text \<open>The rotate handle of \<open>getHover\<close>: 30 above the middle of the top edge, rotated
  with the rect.\<close>

definition rotatePt :: "rect \<Rightarrow> point" where
  "rotatePt ar =
     (let p = \<lparr>pt_x = pt_x (rect_center ar), pt_y = rect_y ar - 30\<rparr>
      in if rect_rotate ar \<noteq> 0 then rotatePoint p (rect_rotate ar) (rect_center ar) else p)"

text \<open>The first block of \<open>getHover\<close>: the rotate handle, the four corners, the four
  edge midpoints. It returns the classification and the state with \<open>resizeIndex\<close>.\<close>

definition hoverHandles :: "externals \<Rightarrow> point \<Rightarrow> canvas \<Rightarrow> error + HoverType \<times> canvas" where
  "hoverHandles X pt s =
     (case activeRect s of
        None \<Rightarrow> Inr (NoHover, s)
      | Some ar \<Rightarrow>
          if \<not> truthy (drawingLineName s) \<and> \<not> activeLine s \<and> data_locked s = Unlocked then
            (let h1 = (if \<not> options_disableRotate s \<and> hotkeyType s = NoHotkey \<and>
                          hitPoint X pt (rotatePt ar) (pointSize s)
                       then Rotate else NoHover)
             in andThen
                  (if hotkeyType s = NoHotkey \<or> hotkeyType s = HotResize
                   then firstHit X pt (pointSize s) (sizeCPs s) [0, 1, 2, 3] else Inr None)
                  (\<lambda>c. (let hs2 = (case c of None \<Rightarrow> (h1, s)
                                    | Some i \<Rightarrow> (Resize, s\<lparr>resizeIndex := i\<rparr>))
                        in andThen
                             (if hotkeyType s = HotResize
                              then firstHit X pt (pointSize s) (sizeCPs s) [4, 5, 6, 7] else Inr None)
                             (\<lambda>e. Inr (case e of None \<Rightarrow> hs2
                                        | Some i \<Rightarrow> (Resize, (snd hs2)\<lparr>resizeIndex := i\<rparr>))))))
          else Inr (NoHover, s))"

text \<open>The classifications of a handle of the selection.\<close>

definition handle :: "HoverType \<Rightarrow> bool" where
  "handle h = (h = Rotate \<or> h = Resize)"

text \<open>\<open>Canvas.getHover\<close>.\<close>

definition getHover :: "externals \<Rightarrow> point \<Rightarrow> canvas \<Rightarrow> error + canvas" where
  "getHover X pt s =
     (let s0 = s\<lparr>store_anchor := None, store_pointAt := None, store_pointAtIndex := None\<rparr>
      in andThen (hoverHandles X pt s0) (\<lambda>(h1, s1).
           (let (h2, s2) = (if h1 = NoHover then hoverPens X pt (rev (data_pens s1)) s1 else (h1, s1));
                h3 = (if h2 = NoHover \<and> \<not> activeLine s2 \<and> pointInRect X pt (activeRect s2)
                      then HoverNode else h2);
                s3 = s2\<lparr>hoverType := h3\<rparr>;
                s4 = (if h3 = NoHover then s3\<lparr>store_hover := None\<rparr> else s3)
            in if store_lastHover s4 \<noteq> store_hover s4 then
                 (let s5 = s4\<lparr>dirty := True\<rparr>;
                      s6 = (case store_lastHover s5 of
                              None \<Rightarrow> s5
                            | Some l \<Rightarrow>
                                (upd_pen l (\<lambda>p. p\<lparr>calc_hover := False\<rparr>) s5)
                                  \<lparr>emitted := emitted s5 @ [Leave l]\<rparr>);
                      s7 = (case store_hover s6 of
                              None \<Rightarrow> s6
                            | Some n \<Rightarrow>
                                (upd_pen n (\<lambda>p. p\<lparr>calc_hover := True\<rparr>) s6)
                                  \<lparr>emitted := emitted s6 @ [Enter n]\<rparr>)
                  in Inr (s7\<lparr>store_lastHover := store_hover s7\<rparr>))
               else Inr s4)))"

subsection \<open>Resizing\<close>

text \<open>The \<open>switch (this.resizeIndex)\<close> of \<open>resizePens\<close> on the active rect, its
  \<open>+=\<close> and \<open>-=\<close> on doubles.\<close>

definition resizeRect :: "nat \<Rightarrow> real \<Rightarrow> real \<Rightarrow> rect \<Rightarrow> rect" where
  "resizeRect i offsetX offsetY r =
     (if i = 0 then
        r\<lparr>rect_x := add64 (rect_x r) offsetX, rect_y := add64 (rect_y r) offsetY,
          rect_width := sub64 (rect_width r) offsetX,
          rect_height := sub64 (rect_height r) offsetY\<rparr>
      else if i = 1 then
        r\<lparr>rect_ex := add64 (rect_ex r) offsetX, rect_y := add64 (rect_y r) offsetY,
          rect_width := add64 (rect_width r) offsetX,
          rect_height := sub64 (rect_height r) offsetY\<rparr>
      else if i = 2 then
        r\<lparr>rect_ex := add64 (rect_ex r) offsetX, rect_ey := add64 (rect_ey r) offsetY,
          rect_width := add64 (rect_width r) offsetX,
          rect_height := add64 (rect_height r) offsetY\<rparr>
      else if i = 3 then
        r\<lparr>rect_x := add64 (rect_x r) offsetX, rect_ey := add64 (rect_ey r) offsetY,
          rect_width := sub64 (rect_width r) offsetX,
          rect_height := add64 (rect_height r) offsetY\<rparr>
      else if i = 4 then
        r\<lparr>rect_y := add64 (rect_y r) offsetY, rect_height := sub64 (rect_height r) offsetY\<rparr>
      else if i = 5 then
        r\<lparr>rect_ex := add64 (rect_ex r) offsetX, rect_width := add64 (rect_width r) offsetX\<rparr>
      else if i = 6 then
        r\<lparr>rect_ey := add64 (rect_ey r) offsetY, rect_height := add64 (rect_height r) offsetY\<rparr>
      else if i = 7 then
        r\<lparr>rect_x := add64 (rect_x r) offsetX, rect_width := sub64 (rect_width r) offsetX\<rparr>
      else r)"

text \<open>What the loop of \<open>resizePens\<close> assigns to one pen: \<open>ip\<close> is the pen's entry of
  \<open>activeInitPos\<close>.\<close>

definition resizePen :: "point \<Rightarrow> rect \<Rightarrow> real \<Rightarrow> real \<Rightarrow> pen \<Rightarrow> pen" where
  "resizePen ip ar scaleX scaleY p =
     p\<lparr>pen_x := add64 (mul64 (pt_x ip) (rect_width ar)) (rect_x ar),
       pen_y := add64 (mul64 (pt_y ip) (rect_height ar)) (rect_y ar),
       pen_width := mul64 (pen_width p) scaleX,
       pen_height := mul64 (pen_height p) scaleY\<rparr>"

text \<open>The loop \<open>this.store.active.forEach((pen, i) => ...)\<close> of \<open>resizePens\<close>, over
  the pairs of an index and the pen at it.\<close>

fun resizeEach :: "externals \<Rightarrow> rect \<Rightarrow> real \<Rightarrow> real \<Rightarrow> (nat \<times> ref) list \<Rightarrow> canvas \<Rightarrow> error + canvas" where
  "resizeEach X ar scaleX scaleY [] s = Inr s"
| "resizeEach X ar scaleX scaleY ((i, r) # rest) s =
     (if truthy (pen_parentId (obj s r)) then resizeEach X ar scaleX scaleY rest s
      else if i < length (activeInitPos s) then
        (let s1 = upd_pen r (resizePen (activeInitPos s ! i) ar scaleX scaleY) s
         in resizeEach X ar scaleX scaleY rest (dirtyPenRect X r s1))
      else Inl TypeError)"

text \<open>\<open>Canvas.resizePens\<close>; \<open>e\<close> is the pointer of the move event. Its arithmetic
  is that of doubles; \<open>rotatePoint\<close> and \<open>calcCenter\<close>, modelled from the spec, are
  exact. The quotients \<open>scaleX\<close> and \<open>scaleY\<close> are those of the source where the old
  width and height are not zero.\<close>

definition resizePens :: "externals \<Rightarrow> real \<Rightarrow> point \<Rightarrow> canvas \<Rightarrow> error + canvas" where
  "resizePens X pnow e s =
     (case mouseDown s of
        None \<Rightarrow> Inl TypeError
      | Some d \<Rightarrow>
          (case activeRect s of
             None \<Rightarrow> Inl TypeError
           | Some ar \<Rightarrow>
               (let p1 = rotatePoint \<lparr>pt_x = pt_x d, pt_y = pt_y d\<rparr> (- rect_rotate ar) (rect_center ar);
                    p2 = rotatePoint \<lparr>pt_x = pt_x e, pt_y = pt_y e\<rparr> (- rect_rotate ar) (rect_center ar);
                    x = sub64 (pt_x p2) (pt_x p1);
                    y = sub64 (pt_y p2) (pt_y p1);
                    offsetX = sub64 x (lastOffsetX s);
                    offsetY = sub64 y (lastOffsetY s);
                    s1 = s\<lparr>lastOffsetX := x, lastOffsetY := y\<rparr>;
                    w = rect_width ar;
                    h = rect_height ar;
                    ar' = calcCenter (resizeRect (resizeIndex s1) offsetX offsetY ar);
                    s2 = s1\<lparr>activeRect := Some ar'\<rparr>;
                    scaleX = div64 (rect_width ar') w;
                    scaleY = div64 (rect_height ar') h
                in andThen (resizeEach X ar' scaleX scaleY (enumerate 0 (store_active s2)) s2)
                     (\<lambda>s3. andThen (getSizeCPs s3) (\<lambda>s4. Inr (render pnow Infinity s4))))))"

text \<open>A resize gesture after the button went down: the calls of \<open>resizePens\<close> that
  \<open>onMouseMove\<close> makes for the move events, each with its reading of the clock.\<close>

fun resizeMoves :: "externals \<Rightarrow> (real \<times> point) list \<Rightarrow> canvas \<Rightarrow> error + canvas" where
  "resizeMoves X [] s = Inr s"
| "resizeMoves X ((pnow, e) # es) s = andThen (resizePens X pnow e s) (resizeMoves X es)"

text \<open>The width (or the height) after the moves of a gesture on the handle 2, as the
  lines \<open>x = p2.x - p1.x\<close>, \<open>offsetX = x - this.lastOffsetX\<close>, \<open>this.lastOffsetX = x\<close>
  and \<open>this.activeRect.width += offsetX\<close> compute it on an unrotated rect: \<open>w\<close> is the
  width before, \<open>l\<close> the offset applied so far, \<open>d\<close> the coordinate of the pointer when
  the button went down, and the list the coordinates of the pointer at the moves.\<close>

fun grown :: "real \<Rightarrow> real \<Rightarrow> real \<Rightarrow> real list \<Rightarrow> real" where
  "grown w l d [] = w"
| "grown w l d (e # es) = grown (add64 w (sub64 (sub64 e d) l)) (sub64 e d) d es"

text \<open>A coordinate on the grid of step \<open>2^(-k)\<close>, of at most \<open>2^50\<close> steps: a whole
  number of pixels for \<open>k = 0\<close>, of half pixels for \<open>k = 1\<close>.\<close>

definition onGrid :: "nat \<Rightarrow> real \<Rightarrow> bool" where
  "onGrid k v = (of_int \<lfloor>v * 2 ^ k\<rfloor> = v * 2 ^ k \<and> \<bar>v * 2 ^ k\<bar> \<le> 2 ^ 50)"

subsection \<open>Dragging a bezier handle\<close>

text \<open>The case \<open>HoverType.LineAnchorPrev\<close>, \<open>HoverType.LineAnchorNext\<close> of the switch in
  \<open>onMouseDown\<close>: the copies \<open>{ ...this.store.anchor.prev }\<close> and
  \<open>{ ...this.store.anchor.next }\<close>.\<close>

definition onMouseDown_backup :: "canvas \<Rightarrow> error + canvas" where
  "onMouseDown_backup s =
     (case store_anchor s of
        None \<Rightarrow> Inl TypeError
      | Some a \<Rightarrow> Inr (s\<lparr>prevAnchor := anchor_prev a, nextAnchor := anchor_next a\<rparr>))"

text \<open>The tail shared by the anchor moves: the line \<open>store.active[0]\<close> is marked
  dirty, its path rebuilt, and the canvas rendered.\<close>

definition dirtyLine :: "real \<Rightarrow> canvas \<Rightarrow> error + canvas" where
  "dirtyLine pnow s =
     (case store_active s of
        [] \<Rightarrow> Inl TypeError
      | l # _ \<Rightarrow> Inr (render pnow Infinity (set_path l (upd_pen l (\<lambda>p. p\<lparr>calc_dirty := True\<rparr>) s))))"

text \<open>\<open>Canvas.moveLineAnchorNext\<close>. The anchor is \<open>store.anchor\<close>; an unset backup
  (\<open>prevAnchor\<close>, \<open>nextAnchor\<close>) is a handle the anchor did not have when the
  button went down.\<close>

definition moveLineAnchorNext :: "externals \<Rightarrow> real \<Rightarrow> point \<Rightarrow> canvas \<Rightarrow> error + canvas" where
  "moveLineAnchorNext X pnow e s =
     (if activeRect s = None \<or> data_locked s \<noteq> Unlocked then Inr s
      else
        (case store_anchor s of
           None \<Rightarrow> Inl TypeError
         | Some a \<Rightarrow>
             (case anchor_next a of
                None \<Rightarrow> Inl TypeError
              | Some _ \<Rightarrow>
                  (let a1 = a\<lparr>anchor_next := Some \<lparr>pt_x = pt_x e, pt_y = pt_y e\<rparr>\<rparr>
                   in if anchor_prevNextType a1 = None \<or> anchor_prevNextType a1 = Some Mirror then
                        (case anchor_prev a1 of
                           None \<Rightarrow> Inl TypeError
                         | Some _ \<Rightarrow>
                             dirtyLine pnow (s\<lparr>store_anchor := Some
                               (a1\<lparr>anchor_prev := Some
                                  (rotatePoint \<lparr>pt_x = pt_x e, pt_y = pt_y e\<rparr> 180 (anchor_pt a1))\<rparr>)\<rparr>))
                      else if anchor_prevNextType a1 = Some Bilateral then
                        (case (nextAnchor s, anchor_prev a1, prevAnchor s) of
                           (Some nx, Some _, Some pv) \<Rightarrow>
                             (let rotate = calcRotate X e (anchor_pt a1);
                                  nextRotate = calcRotate X nx (anchor_pt a1)
                              in dirtyLine pnow (s\<lparr>store_anchor := Some
                                   (a1\<lparr>anchor_prev := Some
                                      (rotatePoint \<lparr>pt_x = pt_x pv, pt_y = pt_y pv\<rparr>
                                         (rotate - nextRotate) (anchor_pt a1))\<rparr>)\<rparr>))
                         | _ \<Rightarrow> Inl TypeError)
                      else dirtyLine pnow (s\<lparr>store_anchor := Some a1\<rparr>)))))"

text \<open>A drag of \<open>anchor.next\<close>: the backup at button-down, then the calls of
  \<open>moveLineAnchorNext\<close> for the move events.\<close>

fun nextMoves :: "externals \<Rightarrow> (real \<times> point) list \<Rightarrow> canvas \<Rightarrow> error + canvas" where
  "nextMoves X [] s = Inr s"
| "nextMoves X ((pnow, e) # es) s = andThen (moveLineAnchorNext X pnow e s) (nextMoves X es)"

definition dragNext :: "externals \<Rightarrow> (real \<times> point) list \<Rightarrow> canvas \<Rightarrow> error + canvas" where
  "dragNext X es s = andThen (onMouseDown_backup s) (nextMoves X es)"

subsection \<open>Translating the selection\<close>





subsection \<open>Zooming\<close>

text \<open>\<open>Canvas.calibrateMouse\<close>.\<close>

definition calibrateMouse :: "canvas \<Rightarrow> point \<Rightarrow> point" where
  "calibrateMouse s pt = pt\<lparr>pt_x := pt_x pt - data_x s, pt_y := pt_y pt - data_y s\<rparr>"

fun scaleEach :: "externals \<Rightarrow> real \<Rightarrow> point \<Rightarrow> ref list \<Rightarrow> canvas \<Rightarrow> error + canvas" where
  "scaleEach X k center [] s = Inr s"
| "scaleEach X k center (r # rs) s =
     (let s1 = dirtyPenRect X r (upd_pen r (\<lambda>p. scalePen X p k center) s)
      in andThen (if pen_type (obj s1 r) = Line then initLineRect X r s1 else Inr s1)
           (scaleEach X k center rs))"

text \<open>\<open>Canvas.scale\<close>. The quotient \<open>scale / this.store.data.scale\<close> is that of the
  source where \<open>data.scale\<close> is not zero.\<close>

definition scale :: "externals \<Rightarrow> real \<Rightarrow> real \<Rightarrow> point \<Rightarrow> canvas \<Rightarrow> error + canvas" where
  "scale X pnow sc center s =
     (if sc < options_minScale s \<or> sc > options_maxScale s then Inr s
      else
        (let center' = calibrateMouse s center;
             s1 = s\<lparr>dirty := True\<rparr>;
             k = sc / data_scale s1
         in andThen (scaleEach X k center' (data_pens s1) s1) (\<lambda>s2.
              andThen (calcActiveRect X s2) (\<lambda>s3.
                (let s4 = render pnow Infinity (s3\<lparr>data_scale := sc, data_center := center'\<rparr>)
                 in Inr (s4\<lparr>emitted := emitted s4 @ [Scale (data_scale s4)]\<rparr>))))))"

subsection \<open>A concrete canvas\<close>

text \<open>The inputs at which the statements below are evaluated: a rectangle, a node pen
  on it, and a canvas with nothing selected.\<close>

definition rect0 :: rect where
  "rect0 = \<lparr>rect_x = 10, rect_y = 20, rect_width = 100, rect_height = 50, rect_ex = 110,
            rect_ey = 70, rect_rotate = 0, rect_center = \<lparr>pt_x = 60, pt_y = 45\<rparr>\<rparr>"

definition pen0 :: pen where
  "pen0 = \<lparr>pen_id = ''a'', pen_name = ''rectangle'', pen_x = 10, pen_y = 20, pen_width = 100,
           pen_height = 50, pen_rotate = 0, pen_type = Node, pen_parentId = None,
           pen_locked = Unlocked, pen_visible = True, pen_from = None, pen_to = None,
           pen_anchors = None, worldRect = rect0, worldFrom = None, worldTo = None,
           worldAnchors = None, activeAnchor = None, calc_active = False, calc_hover = False,
           calc_dirty = False\<rparr>"

definition canvas0 :: canvas where
  "canvas0 = \<lparr>data_pens = [], data_x = 0, data_y = 0, data_scale = 1,
     data_center = \<lparr>pt_x = 0, pt_y = 0\<rparr>, data_locked = Unlocked, options_interval = 30,
     options_minScale = 0.5, options_maxScale = 10, options_disableRotate = False,
     options_disableAnchor = False, obj = (\<lambda>r. pen0), store_pens = (\<lambda>i. None),
     store_active = [], store_hover = None, store_lastHover = None, store_anchor = None,
     store_pointAt = None, store_pointAtIndex = None, histories = [], emitted = [],
     path2dMap = (\<lambda>r. None), animate_size = 0, activeRect = None, lastRotate = 0,
     sizeCPs = None, activeInitPos = [], hoverType = NoHover, resizeIndex = 0,
     mouseDown = None, hotkeyType = NoHotkey, lastOffsetX = 0, lastOffsetY = 0,
     drawingLineName = None, drawingLine = None, prevAnchor = None, nextAnchor = None,
     dirty = False, lastRender = 0, pointSize = 8, beforeAddPen = None, frames = 0,
     redraws = 0\<rparr>"

text \<open>One choice of the helpers, a line being drawn, and what a call that may throw
  leaves in a field of the state.\<close>

definition ext0 :: externals where
  "ext0 = \<lparr>
     calcWorldRects = (\<lambda>lk p. p\<lparr>worldRect :=
        \<lparr>rect_x = pen_x p, rect_y = pen_y p, rect_width = pen_width p,
         rect_height = pen_height p, rect_ex = pen_x p + pen_width p,
         rect_ey = pen_y p + pen_height p, rect_rotate = pen_rotate p,
         rect_center = \<lparr>pt_x = pen_x p + pen_width p / 2, pt_y = pen_y p + pen_height p / 2\<rparr>\<rparr>\<rparr>),
     calcWorldAnchors = (\<lambda>p. p),
     calcIconRect = (\<lambda>lk p. p),
     calcTextRect = (\<lambda>p. p),
     scalePen = (\<lambda>p k c. p\<lparr>pen_x := pt_x c + (pen_x p - pt_x c) * k,
        pen_y := pt_y c + (pen_y p - pt_y c) * k,
        pen_width := pen_width p * k, pen_height := pen_height p * k\<rparr>),
     translateLine = (\<lambda>p x y. p\<lparr>pen_x := pen_x p + x, pen_y := pen_y p + y\<rparr>),
     translateRect = (\<lambda>r x y. r\<lparr>rect_x := rect_x r + x, rect_y := rect_y r + y,
        rect_ex := rect_ex r + x, rect_ey := rect_ey r + y,
        rect_center := \<lparr>pt_x = pt_x (rect_center r) + x, pt_y = pt_y (rect_center r) + y\<rparr>\<rparr>),
     translateRectPen = (\<lambda>p x y. p\<lparr>pen_x := pen_x p + x, pen_y := pen_y p + y\<rparr>),
     getLineRect = (\<lambda>p. worldRect p),
     calcRelativePoint = (\<lambda>a r. a\<lparr>anchor_x := anchor_x a - rect_x r,
        anchor_y := anchor_y a - rect_y r\<rparr>),
     pointInLine = (\<lambda>pt p. None),
     hitPoint = (\<lambda>pt t r. pt_x t - r < pt_x pt \<and> pt_x pt < pt_x t + r \<and>
        pt_y t - r < pt_y pt \<and> pt_y pt < pt_y t + r),
     pointInRect = (\<lambda>pt ro. case ro of None \<Rightarrow> False
        | Some r \<Rightarrow> rect_x r \<le> pt_x pt \<and> pt_x pt \<le> rect_ex r \<and>
                   rect_y r \<le> pt_y pt \<and> pt_y pt \<le> rect_ey r),
     getRect = (\<lambda>ps. case ps of [] \<Rightarrow> rect0
        | p # qs \<Rightarrow>
            (let x = foldr (\<lambda>q. min (rect_x (worldRect q))) qs (rect_x (worldRect p));
                 y = foldr (\<lambda>q. min (rect_y (worldRect q))) qs (rect_y (worldRect p));
                 ex = foldr (\<lambda>q. max (rect_ex (worldRect q))) qs (rect_ex (worldRect p));
                 ey = foldr (\<lambda>q. max (rect_ey (worldRect q))) qs (rect_ey (worldRect p))
             in \<lparr>rect_x = x, rect_y = y, rect_width = ex - x, rect_height = ey - y,
                 rect_ex = ex, rect_ey = ey, rect_rotate = 0,
                 rect_center = \<lparr>pt_x = x + (ex - x) / 2, pt_y = y + (ey - y) / 2\<rparr>\<rparr>)),
     calcRotate = (\<lambda>p c. if pt_x p = pt_x c then (if pt_y p \<le> pt_y c then 0 else 180)
        else if pt_x p < pt_x c then 270 else 90),
     drawLineFns = (\<lambda>n. None)\<rparr>"

definition anchorAt :: "real \<Rightarrow> real \<Rightarrow> anchor" where
  "anchorAt x y = \<lparr>anchor_x = x, anchor_y = y, anchor_id = ''p'', anchor_penId = None,
     anchor_connectTo = None, anchor_anchorId = None, anchor_prev = None, anchor_next = None,
     anchor_prevNextType = None\<rparr>"

definition line0 :: pen where
  "line0 = pen0\<lparr>pen_id := ''l'', pen_name := ''line'', pen_type := Line,
     worldFrom := Some (anchorAt 10 20), worldTo := Some (anchorAt 110 70),
     worldAnchors := Some []\<rparr>"

definition drawing0 :: canvas where
  "drawing0 = canvas0\<lparr>obj := (obj canvas0)(1 := line0), drawingLine := Some 1,
     drawingLineName := Some ''curve''\<rparr>"

text \<open>The pen \<open>pen0\<close> selected, with its size control points.\<close>

definition selected0 :: canvas where
  "selected0 = canvas0\<lparr>data_pens := [1], store_active := [1], activeRect := Some rect0,
     sizeCPs := Some [\<lparr>pt_x = 10, pt_y = 20\<rparr>, \<lparr>pt_x = 110, pt_y = 20\<rparr>,
                      \<lparr>pt_x = 110, pt_y = 70\<rparr>, \<lparr>pt_x = 10, pt_y = 70\<rparr>,
                      \<lparr>pt_x = 60, pt_y = 20\<rparr>, \<lparr>pt_x = 110, pt_y = 45\<rparr>,
                      \<lparr>pt_x = 60, pt_y = 70\<rparr>, \<lparr>pt_x = 10, pt_y = 45\<rparr>]\<rparr>"

text \<open>The bottom-right handle of that selection held down at (110, 70).\<close>

definition resizing0 :: canvas where
  "resizing0 = selected0\<lparr>mouseDown := Some \<lparr>pt_x = 110, pt_y = 70\<rparr>,
     activeInitPos := [\<lparr>pt_x = 0, pt_y = 0\<rparr>], resizeIndex := 2\<rparr>"

text \<open>A pen 300 wide whose right edge is at 0, selected, and its bottom-right handle
  held down at (0, 0).\<close>

definition rect1 :: rect where
  "rect1 = \<lparr>rect_x = - 300, rect_y = - 200, rect_width = 300, rect_height = 200, rect_ex = 0,
            rect_ey = 0, rect_rotate = 0, rect_center = \<lparr>pt_x = - 150, pt_y = - 100\<rparr>\<rparr>"

definition resizing1 :: canvas where
  "resizing1 = resizing0\<lparr>obj := (obj resizing0)(1 := pen0\<lparr>pen_x := - 300, pen_y := - 200,
       pen_width := 300, pen_height := 200, worldRect := rect1\<rparr>),
     activeRect := Some rect1, mouseDown := Some \<lparr>pt_x = 0, pt_y = 0\<rparr>\<rparr>"

text \<open>Two pens with rotations 30 and 45, the first selected.\<close>

definition rotated0 :: canvas where
  "rotated0 = selected0\<lparr>obj := (obj selected0)(1 := pen0\<lparr>pen_rotate := 30\<rparr>,
     2 := pen0\<lparr>pen_rotate := 45\<rparr>)\<rparr>"

text \<open>An anchor at (100, 100) with its two handles, on the selected line \<open>line0\<close>.\<close>

definition handles0 :: anchor where
  "handles0 = (anchorAt 100 100)\<lparr>anchor_prev := Some \<lparr>pt_x = 100, pt_y = 80\<rparr>,
     anchor_next := Some \<lparr>pt_x = 100, pt_y = 120\<rparr>\<rparr>"

text \<open>The first anchor of a curve, with the handle \<open>next\<close> and no handle \<open>prev\<close>, on
  the selected line.\<close>

definition start0 :: anchor where
  "start0 = (anchorAt 100 100)\<lparr>anchor_next := Some \<lparr>pt_x = 100, pt_y = 120\<rparr>\<rparr>"

definition curve0 :: canvas where
  "curve0 = selected0\<lparr>obj := (obj selected0)(1 := line0\<lparr>worldFrom := Some start0,
     calc_active := True\<rparr>)\<rparr>"

definition editing0 :: canvas where
  "editing0 = selected0\<lparr>obj := (obj selected0)(1 := line0), store_anchor := Some handles0\<rparr>"


text \<open>The distance of two points.\<close>

definition distance :: "point \<Rightarrow> point \<Rightarrow> real" where
  "distance p q = sqrt ((pt_x p - pt_x q)\<^sup>2 + (pt_y p - pt_y q)\<^sup>2)"

definition after :: "(canvas \<Rightarrow> 'a) \<Rightarrow> error + canvas \<Rightarrow> 'a option" where
  "after f m = (case m of Inl e \<Rightarrow> None | Inr s \<Rightarrow> Some (f s))"

section \<open>Properties\<close>

subsection \<open>Doubles\<close>

text \<open>The exponent is the one of the binary notation, rounding moves a number by at
  most half the spacing of the doubles around it, and a number that needs at most 53
  bits on a grid of step \<open>2^(-k)\<close> is a double.\<close>

lemma pow2_powr: "pow2 k = 2 powr (of_int k)"
  by (simp add: pow2_def powr_realpow [symmetric] powr_minus divide_simps)

lemma pow2_pos: "0 < pow2 k"
  by (simp add: pow2_def)

lemma pow2_add: "pow2 (j + k) = pow2 j * pow2 k"
  by (simp add: pow2_powr powr_add)

lemma pow2_nat: "pow2 (int n) = 2 ^ n"
  by (simp add: pow2_def)

lemma roundEven_int: "roundEven (of_int j) = j"
  by (simp add: roundEven_def)

lemma roundEven_near: "\<bar>of_int (roundEven y) - y\<bar> \<le> 1 / 2"
proof -
  have "of_int \<lfloor>y\<rfloor> \<le> y" "y < of_int \<lfloor>y\<rfloor> + 1" by linarith+
  then show ?thesis by (simp add: roundEven_def Let_def)
qed

lemma int_le_power: "(a::int) \<le> 2 ^ n \<Longrightarrow> (of_int a :: real) \<le> 2 ^ n"
  using of_int_le_iff [of a "2 ^ n", where ?'a = real] by simp

lemma power_le_int: "2 ^ n \<le> (a::int) \<Longrightarrow> (2::real) ^ n \<le> of_int a"
  using of_int_le_iff [of "2 ^ n" a, where ?'a = real] by simp

lemma expo_bounds:
  assumes "x \<noteq> 0"
  shows "pow2 (expo x) \<le> \<bar>x\<bar>" "\<bar>x\<bar> < pow2 (expo x + 1)"
proof -
  show "pow2 (expo x) \<le> \<bar>x\<bar>"
  proof (cases "1 \<le> \<bar>x\<bar>")
    case True
    define n where "n = \<lfloor>\<bar>x\<bar>\<rfloor>"
    have pos: "0 < n" using True unfolding n_def by linarith
    have "1 \<le> bitlen n" using pos by (simp add: bitlen_ge_iff_power)
    then have "pow2 (expo x) = 2 ^ nat (bitlen n - 1)"
      using True by (simp add: expo_def pow2_def n_def)
    also have "\<dots> \<le> of_int n"
      using bitlen_bounds [OF pos] by (intro power_le_int) blast
    also have "\<dots> \<le> \<bar>x\<bar>" unfolding n_def by linarith
    finally show ?thesis .
  next
    case False
    define n where "n = \<lceil>1 / \<bar>x\<bar>\<rceil> - 1"
    have y: "1 < 1 / \<bar>x\<bar>" using False assms by simp
    then have pos: "0 < n" unfolding n_def by linarith
    have "n + 1 \<le> 2 ^ nat (bitlen n)" using bitlen_bounds [OF pos] by linarith
    then have "of_int (n + 1) \<le> (2::real) ^ nat (bitlen n)" by (rule int_le_power)
    moreover have "1 / \<bar>x\<bar> \<le> of_int (n + 1)" unfolding n_def by simp
    ultimately have "1 / \<bar>x\<bar> \<le> 2 ^ nat (bitlen n)" by linarith
    then have "1 \<le> 2 ^ nat (bitlen n) * \<bar>x\<bar>"
      using assms by (simp add: field_simps)
    then have "1 / 2 ^ nat (bitlen n) \<le> \<bar>x\<bar>"
      by (simp add: field_simps)
    moreover have "0 < bitlen n" using pos by (simp add: bitlen_alt_def)
    ultimately show ?thesis using False by (simp add: expo_def pow2_def n_def)
  qed
  show "\<bar>x\<bar> < pow2 (expo x + 1)"
  proof (cases "1 \<le> \<bar>x\<bar>")
    case True
    define n where "n = \<lfloor>\<bar>x\<bar>\<rfloor>"
    have pos: "0 < n" using True unfolding n_def by linarith
    have "n + 1 \<le> 2 ^ nat (bitlen n)" using bitlen_bounds [OF pos] by linarith
    then have "of_int (n + 1) \<le> (2::real) ^ nat (bitlen n)" by (rule int_le_power)
    moreover have "\<bar>x\<bar> < of_int (n + 1)" unfolding n_def by linarith
    ultimately have "\<bar>x\<bar> < 2 ^ nat (bitlen n)" by linarith
    moreover have "0 \<le> bitlen n" by (rule bitlen_nonneg)
    ultimately show ?thesis using True by (simp add: expo_def pow2_def n_def)
  next
    case False
    define n where "n = \<lceil>1 / \<bar>x\<bar>\<rceil> - 1"
    have y: "1 < 1 / \<bar>x\<bar>" using False assms by simp
    then have pos: "0 < n" unfolding n_def by linarith
    have b1: "1 \<le> bitlen n" using pos by (simp add: bitlen_ge_iff_power)
    have "(2::real) ^ nat (bitlen n - 1) \<le> of_int n"
      using bitlen_bounds [OF pos] by (intro power_le_int) blast
    moreover have "of_int n < 1 / \<bar>x\<bar>" unfolding n_def by linarith
    ultimately have "2 ^ nat (bitlen n - 1) < 1 / \<bar>x\<bar>" by linarith
    then have "2 ^ nat (bitlen n - 1) * \<bar>x\<bar> < 1"
      using assms by (simp add: field_simps)
    then have lt: "\<bar>x\<bar> < 1 / 2 ^ nat (bitlen n - 1)"
      by (simp add: field_simps)
    have e: "expo x + 1 = - (bitlen n - 1)" using False by (simp add: expo_def n_def)
    show ?thesis
    proof (cases "bitlen n = 1")
      case True
      then show ?thesis using False unfolding e by (simp add: pow2_def)
    next
      case F: False
      then have "\<not> 0 \<le> - (bitlen n - 1)" using b1 by simp
      then show ?thesis using lt unfolding e by (simp add: pow2_def)
    qed
  qed
qed

lemma toDouble_grid:
  assumes g: "x * 2 ^ k = of_int m" and m: "\<bar>m\<bar> < 2 ^ 53" and k: "k \<le> 52"
  shows "toDouble x = x"
proof (cases "x = 0")
  case True
  then show ?thesis by (simp add: toDouble_def)
next
  case False
  define q where "q = max (expo x) (- 1022) - 52"
  have "pow2 (expo x) \<le> \<bar>x\<bar>" using expo_bounds(1) [OF False] .
  also have "\<bar>x\<bar> = \<bar>of_int m\<bar> / 2 ^ k" using g by (simp add: field_simps abs_mult flip: g)
  also have "\<dots> < 2 ^ 53 / 2 ^ k"
    using m by (simp add: divide_strict_right_mono flip: of_int_abs)
  also have "\<dots> = pow2 (53 - int k)"
    using k by (simp add: pow2_powr powr_diff flip: powr_realpow)
  finally have "pow2 (expo x) < pow2 (53 - int k)" .
  then have "expo x < 53 - int k" by (simp add: pow2_powr)
  then have qk: "q \<le> - int k" using k by (simp add: q_def)
  define n where "n = nat (- q - int k)"
  have qn: "- q = int n + int k" using qk by (simp add: n_def)
  have "pow2 (- q) = 2 ^ n * 2 ^ k"
    by (simp add: qn pow2_add pow2_nat)
  moreover have "pow2 q * pow2 (- q) = 1"
    by (simp add: pow2_add [symmetric] pow2_def)
  ultimately have pq: "pow2 q = 1 / (2 ^ n * 2 ^ k)"
    by (simp add: field_simps)
  have "x / pow2 q = x * 2 ^ k * 2 ^ n" by (simp add: pq)
  also have "\<dots> = of_int (m * 2 ^ n)" by (simp add: g)
  finally have "roundEven (x / pow2 q) = m * 2 ^ n" by (simp only: roundEven_int)
  then have "toDouble x = of_int (m * 2 ^ n) * pow2 q"
    using False by (simp add: toDouble_def q_def Let_def)
  also have "\<dots> = x * 2 ^ k * 2 ^ n * pow2 q" by (simp add: g)
  also have "\<dots> = x" by (simp add: pq)
  finally show ?thesis .
qed

lemma toDouble_near:
  "\<bar>toDouble x - x\<bar> \<le> pow2 (max (expo x) (- 1022) - 52) / 2"
proof (cases "x = 0")
  case True
  then show ?thesis using pow2_pos [of "max (expo x) (- 1022) - 52"] by (simp add: toDouble_def)
next
  case False
  define q where "q = max (expo x) (- 1022) - 52"
  define r :: real where "r = of_int (roundEven (x / pow2 q))"
  have p: "0 < pow2 q" by (rule pow2_pos)
  have "r * pow2 q - x = (r - x / pow2 q) * pow2 q"
    using p by (simp add: field_simps)
  then have "\<bar>r * pow2 q - x\<bar> = \<bar>r - x / pow2 q\<bar> * pow2 q"
    using p by (simp only: abs_mult abs_of_pos)
  also have "\<dots> \<le> 1 / 2 * pow2 q"
    using roundEven_near [of "x / pow2 q"] p unfolding r_def by (intro mult_right_mono) simp_all
  finally show ?thesis using False by (simp add: toDouble_def q_def r_def Let_def)
qed

lemma double_literals:
  "toDouble (1 / 10) = 3602879701896397 / 2 ^ 55"
  "toDouble (1 / 5) = 3602879701896397 / 2 ^ 54"
  by (simp_all add: toDouble_def expo_def compute_bitlen pow2_def roundEven_def Let_def)

lemma onGrid_int:
  assumes "onGrid k v"
  shows "\<exists>m::int. v * 2 ^ k = of_int m \<and> \<bar>m\<bar> \<le> 2 ^ 50"
proof -
  define m where "m = \<lfloor>v * 2 ^ k\<rfloor>"
  have "of_int \<lfloor>v * 2 ^ k\<rfloor> = v * 2 ^ k"
    using assms unfolding onGrid_def by (rule conjunct1)
  then have v: "v * 2 ^ k = of_int m" unfolding m_def by (rule sym)
  have "\<bar>v * 2 ^ k\<bar> \<le> 2 ^ 50" using assms unfolding onGrid_def by (rule conjunct2)
  then have "(of_int \<bar>m\<bar> :: real) \<le> 2 ^ 50" unfolding v by simp
  then have "\<bar>m\<bar> \<le> 2 ^ 50"
    using of_int_le_iff [of "\<bar>m\<bar>" "2 ^ 50", where ?'a = real] by simp
  with v show ?thesis by blast
qed

lemma grown_grid:
  assumes k: "k \<le> 52"
    and c: "c * 2 ^ k = of_int mc" "\<bar>mc\<bar> \<le> 2 ^ 50"
    and l: "l * 2 ^ k = of_int ml" "\<bar>ml\<bar> \<le> 2 ^ 51"
    and d: "d * 2 ^ k = of_int md" "\<bar>md\<bar> \<le> 2 ^ 50"
    and es: "\<forall>e\<in>set es. onGrid k e"
  shows "grown (c + l) l d es = c + (if es = [] then l else last es - d)"
  using l es
proof (induction es arbitrary: l ml)
  case Nil
  then show ?case by simp
next
  case (Cons e es)
  from Cons.prems(3) have "onGrid k e" by simp
  then obtain me :: int where me: "e * 2 ^ k = of_int me" "\<bar>me\<bar> \<le> 2 ^ 50"
    using onGrid_int by blast
  have x: "sub64 e d = e - d"
    unfolding sub64_def
    using toDouble_grid [of "e - d" k "me - md"] me d k by (simp add: left_diff_distrib)
  have off: "sub64 (e - d) l = e - d - l"
    unfolding sub64_def
    using toDouble_grid [of "e - d - l" k "me - md - ml"] me d Cons.prems(1,2) k
    by (simp add: left_diff_distrib)
  have w: "add64 (c + l) (e - d - l) = c + (e - d)"
    unfolding add64_def
    using toDouble_grid [of "c + (e - d)" k "mc + (me - md)"] me d c k
    by (simp add: left_diff_distrib distrib_right)
  have "(e - d) * 2 ^ k = of_int (me - md)" "\<bar>me - md\<bar> \<le> 2 ^ 51"
    using me d by (simp_all add: left_diff_distrib)
  moreover have "\<forall>e\<in>set es. onGrid k e" using Cons.prems(3) by simp
  ultimately have "grown (c + (e - d)) (e - d) d es =
      c + (if es = [] then e - d else last es - d)"
    by (rule Cons.IH)
  then show ?case by (simp add: x off w)
qed

subsection \<open>Size control points\<close>

lemma rotatePoint_zero: "rotatePoint p 0 c = p"
  by (simp add: rotatePoint_def)

text \<open>
  C1, as the code has it. For an active rect with rotation \<open>\<theta>\<close>, \<open>getSizeCPs\<close> stores
  eight points, not nine: the four corners (top-left, top-right, bottom-right,
  bottom-left), then the midpoints of the top, right, bottom and left edges, each the
  point stored for rotation 0 rotated by \<open>\<theta>\<close> about the center of the rect.
\<close>

theorem getSizeCPs_rotated:
  assumes "activeRect s = Some r"
  shows "\<exists>cps cps0.
           getSizeCPs s = Inr (s\<lparr>sizeCPs := Some cps\<rparr>) \<and>
           getSizeCPs (s\<lparr>activeRect := Some (r\<lparr>rect_rotate := 0\<rparr>)\<rparr>) =
             Inr (s\<lparr>activeRect := Some (r\<lparr>rect_rotate := 0\<rparr>), sizeCPs := Some cps0\<rparr>) \<and>
           cps0 = [\<lparr>pt_x = rect_x r, pt_y = rect_y r\<rparr>,
                   \<lparr>pt_x = rect_ex r, pt_y = rect_y r\<rparr>,
                   \<lparr>pt_x = rect_ex r, pt_y = rect_ey r\<rparr>,
                   \<lparr>pt_x = rect_x r, pt_y = rect_ey r\<rparr>,
                   \<lparr>pt_x = rect_x r + rect_width r * 0.5, pt_y = rect_y r\<rparr>,
                   \<lparr>pt_x = rect_ex r, pt_y = rect_y r + rect_height r * 0.5\<rparr>,
                   \<lparr>pt_x = rect_x r + rect_width r * 0.5, pt_y = rect_ey r\<rparr>,
                   \<lparr>pt_x = rect_x r, pt_y = rect_y r + rect_height r * 0.5\<rparr>] \<and>
           cps = map (\<lambda>p. rotatePoint p (rect_rotate r) (rect_center r)) cps0 \<and>
           length cps = 8"
  using assms by (simp add: getSizeCPs_def rectToPoints_def rotatePoint_zero)

text \<open>The rectangle \<open>rect0\<close> turned by 90 degrees.\<close>

theorem getSizeCPs_rotated_witness:
  "activeRect (canvas0\<lparr>activeRect := Some (rect0\<lparr>rect_rotate := 90\<rparr>)\<rparr>) =
     Some (rect0\<lparr>rect_rotate := 90\<rparr>) \<and>
   getSizeCPs (canvas0\<lparr>activeRect := Some (rect0\<lparr>rect_rotate := 90\<rparr>)\<rparr>) =
     Inr (canvas0\<lparr>activeRect := Some (rect0\<lparr>rect_rotate := 90\<rparr>),
            sizeCPs := Some [\<lparr>pt_x = 85, pt_y = -5\<rparr>, \<lparr>pt_x = 85, pt_y = 95\<rparr>,
                             \<lparr>pt_x = 35, pt_y = 95\<rparr>, \<lparr>pt_x = 35, pt_y = -5\<rparr>,
                             \<lparr>pt_x = 85, pt_y = 45\<rparr>, \<lparr>pt_x = 60, pt_y = 95\<rparr>,
                             \<lparr>pt_x = 35, pt_y = 45\<rparr>, \<lparr>pt_x = 60, pt_y = -5\<rparr>]\<rparr>)"
  using getSizeCPs_rotated [of "canvas0\<lparr>activeRect := Some (rect0\<lparr>rect_rotate := 90\<rparr>)\<rparr>"
                               "rect0\<lparr>rect_rotate := 90\<rparr>"]
  by (simp add: rotatePoint_def rect0_def)

text \<open>C1 as stated fails: on the unrotated \<open>rect0\<close> the points are these eight.\<close>

theorem getSizeCPs_nine_counterexample:
  "getSizeCPs (canvas0\<lparr>activeRect := Some rect0\<rparr>) =
     Inr (canvas0\<lparr>activeRect := Some rect0,
            sizeCPs := Some [\<lparr>pt_x = 10, pt_y = 20\<rparr>, \<lparr>pt_x = 110, pt_y = 20\<rparr>,
                             \<lparr>pt_x = 110, pt_y = 70\<rparr>, \<lparr>pt_x = 10, pt_y = 70\<rparr>,
                             \<lparr>pt_x = 60, pt_y = 20\<rparr>, \<lparr>pt_x = 110, pt_y = 45\<rparr>,
                             \<lparr>pt_x = 60, pt_y = 70\<rparr>, \<lparr>pt_x = 10, pt_y = 45\<rparr>]\<rparr>) \<and>
   length [\<lparr>pt_x = 10, pt_y = 20\<rparr>, \<lparr>pt_x = 110, pt_y = 20\<rparr>,
           \<lparr>pt_x = 110, pt_y = 70\<rparr>, \<lparr>pt_x = 10, pt_y = 70\<rparr>,
           \<lparr>pt_x = 60, pt_y = 20\<rparr>, \<lparr>pt_x = 110, pt_y = 45\<rparr>,
           \<lparr>pt_x = 60, pt_y = 70\<rparr>, \<lparr>pt_x = 10 :: real, pt_y = 45\<rparr>] \<noteq> 9"
  by (simp add: getSizeCPs_def rectToPoints_def rotatePoint_zero rect0_def)

subsection \<open>Forced and throttled renders\<close>

text \<open>
  C2, as the code has it. \<open>render(Infinity)\<close> sets the dirty flag whatever it was and
  reads the clock; the interval check then applies to it as to every request. A request
  with the dirty flag set (forced or not) that comes sooner than \<open>interval\<close> after the
  last render is deferred, not dropped: one \<open>requestAnimationFrame(this.render)\<close>, the
  flag stays set, nothing is drawn. A forced request that comes later is drawn at once.
\<close>

theorem render_throttled:
  "(pnow - lastRender s < options_interval s \<longrightarrow>
      render pnow Infinity s = s\<lparr>dirty := True, frames := frames s + 1\<rparr>) \<and>
   (\<not> pnow - lastRender s < options_interval s \<longrightarrow>
      redraws (render pnow Infinity s) = redraws s + 1 \<and>
      lastRender (render pnow Infinity s) = pnow \<and>
      dirty (render pnow Infinity s) = False) \<and>
   (dirty s \<and> pnow - lastRender s < options_interval s \<longrightarrow>
      render pnow NoArg s = s\<lparr>frames := frames s + 1\<rparr>) \<and>
   (dirty s \<and> t - lastRender s < options_interval s \<longrightarrow>
      render pnow (Stamp t) s = s\<lparr>frames := frames s + 1\<rparr>)"
  by (simp add: render_def Let_def)

text \<open>Last render at 100, interval 30: requests at 110 are deferred, the one at 130 is
  drawn.\<close>

theorem render_throttled_witness:
  "render 110 Infinity (canvas0\<lparr>lastRender := 100\<rparr>) =
     canvas0\<lparr>lastRender := 100, dirty := True, frames := 1\<rparr> \<and>
   redraws (render 130 Infinity (canvas0\<lparr>lastRender := 100\<rparr>)) = 1 \<and>
   lastRender (render 130 Infinity (canvas0\<lparr>lastRender := 100\<rparr>)) = 130 \<and>
   dirty (render 130 Infinity (canvas0\<lparr>lastRender := 100\<rparr>)) = False \<and>
   render 110 NoArg (canvas0\<lparr>lastRender := 100, dirty := True\<rparr>) =
     canvas0\<lparr>lastRender := 100, dirty := True, frames := 1\<rparr> \<and>
   render 500 (Stamp 110) (canvas0\<lparr>lastRender := 100, dirty := True\<rparr>) =
     canvas0\<lparr>lastRender := 100, dirty := True, frames := 1\<rparr>"
  using render_throttled [of 110 "canvas0\<lparr>lastRender := 100\<rparr>" 0]
        render_throttled [of 130 "canvas0\<lparr>lastRender := 100\<rparr>" 0]
        render_throttled [of 110 "canvas0\<lparr>lastRender := 100, dirty := True\<rparr>" 0]
        render_throttled [of 500 "canvas0\<lparr>lastRender := 100, dirty := True\<rparr>" 110]
  by (simp add: canvas0_def)

text \<open>C2 as stated fails: the forced request at 110 is not drawn but deferred by the
  interval check; and the unforced request at 110 with the dirty flag unset asks for no
  frame.\<close>

theorem render_forced_counterexample:
  "options_interval canvas0 = 30 \<and>
   redraws (render 110 Infinity (canvas0\<lparr>lastRender := 100\<rparr>)) = redraws (canvas0\<lparr>lastRender := 100\<rparr>) \<and>
   frames (render 110 Infinity (canvas0\<lparr>lastRender := 100\<rparr>)) = frames (canvas0\<lparr>lastRender := 100\<rparr>) + 1 \<and>
   render 110 NoArg (canvas0\<lparr>lastRender := 100\<rparr>) = canvas0\<lparr>lastRender := 100\<rparr>"
  by (simp add: render_def canvas0_def)

subsection \<open>What the calls leave unchanged\<close>

lemma render_frame:
  "data_pens (render p a s) = data_pens s"
  "emitted (render p a s) = emitted s"
  "histories (render p a s) = histories s"
  "drawingLine (render p a s) = drawingLine s"
  "obj (render p a s) = obj s"
  "store_active (render p a s) = store_active s"
  "activeRect (render p a s) = activeRect s"
  "store_anchor (render p a s) = store_anchor s"
  "lastOffsetX (render p a s) = lastOffsetX s"
  "lastOffsetY (render p a s) = lastOffsetY s"
  "mouseDown (render p a s) = mouseDown s"
  "resizeIndex (render p a s) = resizeIndex s"
  "activeInitPos (render p a s) = activeInitPos s"
  "prevAnchor (render p a s) = prevAnchor s"
  "nextAnchor (render p a s) = nextAnchor s"
  "data_locked (render p a s) = data_locked s"
  by (simp_all add: render_def Let_def split: now_arg.splits)

lemma drawline_frame:
  "data_pens (drawline X m s) = data_pens s"
  "emitted (drawline X m s) = emitted s"
  "histories (drawline X m s) = histories s"
  by (simp_all add: drawline_def Let_def upd_pen_def set_path_def split: option.splits)

lemma finishTail_frame:
  "\<exists>s'. finishTail X pnow s = Inr s' \<and> data_pens s' = data_pens s \<and> emitted s' = emitted s \<and>
        histories s' = histories s \<and> drawingLine s' = None"
  by (simp add: finishTail_def render_frame drawline_frame)

lemma initLineRect_frame:
  assumes "worldFrom (obj s r) \<noteq> None" "worldTo (obj s r) \<noteq> None"
  shows "\<exists>s'. initLineRect X r s = Inr s' \<and> data_pens s' = data_pens s \<and>
           emitted s' = emitted s \<and> histories s' = histories s \<and>
           pen_id (obj s' r) = pen_id (obj s r)"
  using assms
  by (auto simp add: initLineRect_def lineRect_def Let_def upd_pen_def set_path_def
        split: option.splits)

lemma getSizeCPs_frame:
  assumes "activeRect s \<noteq> None"
  shows "\<exists>s'. getSizeCPs s = Inr s' \<and> data_pens s' = data_pens s \<and>
           emitted s' = emitted s \<and> histories s' = histories s \<and>
           store_active s' = store_active s \<and> obj s' = obj s \<and> activeRect s' = activeRect s"
  using assms by (auto simp add: getSizeCPs_def)

lemma calcActiveRect_frame:
  "\<exists>s'. calcActiveRect X s = Inr s' \<and> data_pens s' = data_pens s \<and>
           emitted s' = emitted s \<and> histories s' = histories s \<and>
           store_active s' = store_active s"
  by (auto simp add: calcActiveRect_def getSizeCPs_def Let_def upd_pen_def)

lemma fold_upd_frame:
  "data_pens (fold (\<lambda>r. upd_pen r f) rs s) = data_pens s \<and>
   emitted (fold (\<lambda>r. upd_pen r f) rs s) = emitted s \<and>
   histories (fold (\<lambda>r. upd_pen r f) rs s) = histories s \<and>
   store_active (fold (\<lambda>r. upd_pen r f) rs s) = store_active s"
  by (induction rs arbitrary: s) (simp_all add: upd_pen_def)

lemma active_frame:
  "\<exists>s'. active X pens s = Inr s' \<and> data_pens s' = data_pens s \<and>
        emitted s' = emitted s @ [Active pens] \<and> histories s' = histories s"
proof -
  let ?s4 = "(fold (\<lambda>r. upd_pen r (\<lambda>p. p\<lparr>calc_active := True\<rparr>)) pens
               ((fold (\<lambda>r. upd_pen r (\<lambda>p. p\<lparr>calc_active := False\<rparr>)) (store_active s) s)
                 \<lparr>store_active := []\<rparr>))"
  let ?s5 = "?s4\<lparr>store_active := store_active ?s4 @ pens\<rparr>"
  have a: "store_active ?s4 = []" "data_pens ?s4 = data_pens s" "emitted ?s4 = emitted s"
    "histories ?s4 = histories s"
    by (simp_all add: fold_upd_frame)
  obtain s' where s': "calcActiveRect X ?s5 = Inr s'" "data_pens s' = data_pens ?s5"
    "emitted s' = emitted ?s5" "histories s' = histories ?s5" "store_active s' = store_active ?s5"
    using calcActiveRect_frame [of X ?s5] by blast
  show ?thesis
    using s' a by (simp add: active_def Let_def andThen_def)
qed


subsection \<open>Finishing a line\<close>

lemma hookAccepts_upd: "hookAccepts (upd_pen r f s) p = hookAccepts s p"
  by (simp add: hookAccepts_def upd_pen_def)

lemma upd_pen_frame:
  "data_pens (upd_pen r f s) = data_pens s"
  "emitted (upd_pen r f s) = emitted s"
  "histories (upd_pen r f s) = histories s"
  "store_pens (upd_pen r f s) = store_pens s"
  "drawingLine (upd_pen r f s) = drawingLine s"
  "obj (upd_pen r f s) r = f (obj s r)"
  by (simp_all add: upd_pen_def)

lemma lineRect_same:
  "toConnected (lineRect X p) = toConnected p" "worldAnchors (lineRect X p) = worldAnchors p"
  "worldFrom (lineRect X p) = worldFrom p" "worldTo (lineRect X p) = worldTo p"
  by (simp_all add: lineRect_def toConnected_def Let_def)

lemma addLine_adds:
  assumes acc: "hookAccepts s (setActiveAnchor (obj s r))"
    and wf: "worldFrom (obj s r) \<noteq> None" and wt: "worldTo (obj s r) \<noteq> None"
  shows "\<exists>s'. addLine X pnow r s = Inr s' \<and> data_pens s' = data_pens s @ [r] \<and>
           emitted s' = emitted s @ [AddPen r, Active [r]] \<and>
           histories s' = histories s @ [HistoryAdd r] \<and> drawingLine s' = None"
proof -
  let ?s1 = "upd_pen r setActiveAnchor s"
  have h: "hookAccepts ?s1 (obj ?s1 r)"
    using acc by (simp add: hookAccepts_upd upd_pen_frame)
  have "worldFrom (obj ?s1 r) \<noteq> None" "worldTo (obj ?s1 r) \<noteq> None"
    using wf wt by (simp_all add: upd_pen_frame setActiveAnchor_def)
  then obtain s2 where s2: "initLineRect X r ?s1 = Inr s2" "data_pens s2 = data_pens ?s1"
    "emitted s2 = emitted ?s1" "histories s2 = histories ?s1"
    using initLineRect_frame [of ?s1 r X] by blast
  let ?s5 = "s2\<lparr>data_pens := data_pens s2 @ [r],
               store_pens := (store_pens s2)(pen_id (obj s2 r) := Some r),
               emitted := emitted s2 @ [AddPen r]\<rparr>"
  obtain s6 where s6: "active X [r] ?s5 = Inr s6" "data_pens s6 = data_pens ?s5"
    "emitted s6 = emitted ?s5 @ [Active [r]]" "histories s6 = histories ?s5"
    using active_frame [of X "[r]" ?s5] by blast
  obtain s' where s': "finishTail X pnow (s6\<lparr>histories := histories s6 @ [HistoryAdd r]\<rparr>) = Inr s'"
    "data_pens s' = data_pens s6" "emitted s' = emitted s6"
    "histories s' = histories s6 @ [HistoryAdd r]" "drawingLine s' = None"
    using finishTail_frame [of X pnow "s6\<lparr>histories := histories s6 @ [HistoryAdd r]\<rparr>"] by auto
  have "addLine X pnow r s = Inr s'"
    using h s2(1) s6(1) s'(1) by (simp add: addLine_def Let_def andThen_def)
  then show ?thesis
    using s2 s6 s' by (simp add: upd_pen_frame)
qed

lemma finishDrawline_none:
  assumes "drawingLine s = Some r" "\<not> end'" "\<not> toConnected (obj s r)"
    "worldAnchors (obj s r) = Some []"
  shows "\<exists>s'. finishDrawline X pnow end' s = Inr s' \<and> data_pens s' = data_pens s \<and>
           emitted s' = emitted s \<and> histories s' = histories s \<and> drawingLine s' = None"
  using assms
  by (simp add: finishDrawline_def Let_def lineRect_same render_frame upd_pen_frame)

lemma finishDrawline_direct:
  assumes dl: "drawingLine s = Some r" and e: "end' \<or> toConnected (obj s r)"
    and acc: "hookAccepts s (setActiveAnchor (lineRect X (obj s r)))"
    and wf: "worldFrom (obj s r) \<noteq> None" and wt: "worldTo (obj s r) \<noteq> None"
  shows "\<exists>s'. finishDrawline X pnow end' s = Inr s' \<and> data_pens s' = data_pens s @ [r] \<and>
           emitted s' = emitted s @ [AddPen r, Active [r]] \<and>
           histories s' = histories s @ [HistoryAdd r] \<and> drawingLine s' = None"
proof -
  let ?s1 = "upd_pen r (lineRect X) s"
  have "finishDrawline X pnow end' s = addLine X pnow r ?s1"
    using dl e by (auto simp add: finishDrawline_def Let_def lineRect_same upd_pen_frame)
  moreover have "hookAccepts ?s1 (setActiveAnchor (obj ?s1 r))"
    using acc by (simp add: hookAccepts_upd upd_pen_frame)
  moreover have "worldFrom (obj ?s1 r) \<noteq> None" "worldTo (obj ?s1 r) \<noteq> None"
    using wf wt by (simp_all add: lineRect_same upd_pen_frame)
  ultimately show ?thesis
    using addLine_adds [of ?s1 r X pnow] by (simp add: upd_pen_frame)
qed

lemma finishDrawline_popped:
  assumes dl: "drawingLine s = Some r" and e: "\<not> end'" "\<not> toConnected (obj s r)"
    and was: "worldAnchors (obj s r) = Some was" "was \<noteq> []"
    and acc: "hookAccepts s (setActiveAnchor (popAnchor was (lineRect X (obj s r))))"
    and wf: "worldFrom (obj s r) \<noteq> None"
  shows "\<exists>s'. finishDrawline X pnow end' s = Inr s' \<and> data_pens s' = data_pens s @ [r] \<and>
           emitted s' = emitted s @ [AddPen r, Active [r]] \<and>
           histories s' = histories s @ [HistoryAdd r] \<and> drawingLine s' = None"
proof -
  let ?s1 = "upd_pen r (lineRect X) s"
  let ?s2 = "upd_pen r (popAnchor was) ?s1"
  have "finishDrawline X pnow end' s = addLine X pnow r ?s2"
    using dl e was by (simp add: finishDrawline_def Let_def lineRect_same upd_pen_frame)
  moreover have "hookAccepts ?s2 (setActiveAnchor (obj ?s2 r))"
    using acc by (simp add: hookAccepts_upd upd_pen_frame)
  moreover have "worldFrom (obj ?s2 r) \<noteq> None" "worldTo (obj ?s2 r) \<noteq> None"
    using wf by (simp_all add: upd_pen_frame popAnchor_def lineRect_same Let_def)
  ultimately show ?thesis
    using addLine_adds [of ?s2 r X pnow] by (simp add: upd_pen_frame)
qed

text \<open>Without the list \<open>worldAnchors\<close> the test \<open>worldAnchors.length\<close> throws, and
  without the end point \<open>worldTo\<close> an accepted line is handed to \<open>calcRelativePoint\<close>
  with \<open>undefined\<close>: nothing is added.\<close>

lemma finishDrawline_no_list:
  assumes "drawingLine s = Some r" "\<not> end'" "\<not> toConnected (obj s r)"
    "worldAnchors (obj s r) = None"
  shows "finishDrawline X pnow end' s = Inl TypeError"
  using assms by (simp add: finishDrawline_def Let_def lineRect_same upd_pen_frame)

lemma finishDrawline_no_end:
  assumes dl: "drawingLine s = Some r" and e: "end'"
    and acc: "hookAccepts s (setActiveAnchor (lineRect X (obj s r)))"
    and wt: "worldTo (obj s r) = None"
  shows "finishDrawline X pnow end' s = Inl TypeError"
proof -
  let ?s1 = "upd_pen r (lineRect X) s"
  let ?s2 = "upd_pen r setActiveAnchor ?s1"
  have "worldTo (obj ?s2 r) = None"
    using wt by (simp add: upd_pen_frame setActiveAnchor_def lineRect_same)
  then have "initLineRect X r ?s2 = Inl TypeError"
    by (simp add: initLineRect_def Let_def upd_pen_def set_path_def lineRect_same
          split: option.splits)
  moreover have "hookAccepts ?s2 (obj ?s2 r)"
    using acc by (simp add: hookAccepts_upd upd_pen_frame)
  ultimately have "addLine X pnow r ?s1 = Inl TypeError"
    by (simp add: addLine_def Let_def andThen_def)
  then show ?thesis
    using dl e by (simp add: finishDrawline_def Let_def)
qed

text \<open>
  C3, as the code has it. Let a line be in progress.
  Finished without \<open>end\<close>, with an end point that is not connected and an empty list
  \<open>worldAnchors\<close>, it is discarded: the pen list, the events and the history are as
  before.
  Finished without \<open>end\<close>, with an end point that is not connected, a list
  \<open>worldAnchors\<close> that is not empty and a start point \<open>worldFrom\<close>, it is added.
  Finished with \<open>end\<close> (the right-click path) or with a connected end point, with a
  start point \<open>worldFrom\<close> and an end point \<open>worldTo\<close>, it is added whatever its
  anchors.
  Added: exactly one pen is appended to \<open>store.data.pens\<close>, exactly one \<open>addPen\<close>
  event is emitted (followed by the \<open>active\<close> event of the selection) and exactly one
  history record is pushed, provided the \<open>beforeAddPen\<close> hook is absent or accepts the
  line it is given.
\<close>

theorem finishDrawline_adds:
  assumes dl: "drawingLine s = Some r"
  shows
    "(\<not> end' \<and> \<not> toConnected (obj s r) \<and> worldAnchors (obj s r) = Some [] \<longrightarrow>
        (\<exists>s'. finishDrawline X pnow end' s = Inr s' \<and> data_pens s' = data_pens s \<and>
              emitted s' = emitted s \<and> histories s' = histories s \<and> drawingLine s' = None)) \<and>
     (\<forall>was. \<not> end' \<and> \<not> toConnected (obj s r) \<and> worldAnchors (obj s r) = Some was \<and> was \<noteq> [] \<and>
        hookAccepts s (setActiveAnchor (popAnchor was (lineRect X (obj s r)))) \<and>
        worldFrom (obj s r) \<noteq> None \<longrightarrow>
        (\<exists>s'. finishDrawline X pnow end' s = Inr s' \<and> data_pens s' = data_pens s @ [r] \<and>
              emitted s' = emitted s @ [AddPen r, Active [r]] \<and>
              histories s' = histories s @ [HistoryAdd r] \<and> drawingLine s' = None)) \<and>
     ((end' \<or> toConnected (obj s r)) \<and>
      hookAccepts s (setActiveAnchor (lineRect X (obj s r))) \<and>
      worldFrom (obj s r) \<noteq> None \<and> worldTo (obj s r) \<noteq> None \<longrightarrow>
        (\<exists>s'. finishDrawline X pnow end' s = Inr s' \<and> data_pens s' = data_pens s @ [r] \<and>
              emitted s' = emitted s @ [AddPen r, Active [r]] \<and>
              histories s' = histories s @ [HistoryAdd r] \<and> drawingLine s' = None))"
proof (intro conjI impI allI)
  assume "\<not> end' \<and> \<not> toConnected (obj s r) \<and> worldAnchors (obj s r) = Some []"
  then show "\<exists>s'. finishDrawline X pnow end' s = Inr s' \<and> data_pens s' = data_pens s \<and>
              emitted s' = emitted s \<and> histories s' = histories s \<and> drawingLine s' = None"
    using finishDrawline_none [OF dl] by blast
next
  fix was
  assume "\<not> end' \<and> \<not> toConnected (obj s r) \<and> worldAnchors (obj s r) = Some was \<and> was \<noteq> [] \<and>
        hookAccepts s (setActiveAnchor (popAnchor was (lineRect X (obj s r)))) \<and>
        worldFrom (obj s r) \<noteq> None"
  then show "\<exists>s'. finishDrawline X pnow end' s = Inr s' \<and> data_pens s' = data_pens s @ [r] \<and>
              emitted s' = emitted s @ [AddPen r, Active [r]] \<and>
              histories s' = histories s @ [HistoryAdd r] \<and> drawingLine s' = None"
    using finishDrawline_popped [OF dl, of end' was X pnow] by blast
next
  assume "(end' \<or> toConnected (obj s r)) \<and>
      hookAccepts s (setActiveAnchor (lineRect X (obj s r))) \<and>
      worldFrom (obj s r) \<noteq> None \<and> worldTo (obj s r) \<noteq> None"
  then show "\<exists>s'. finishDrawline X pnow end' s = Inr s' \<and> data_pens s' = data_pens s @ [r] \<and>
              emitted s' = emitted s @ [AddPen r, Active [r]] \<and>
              histories s' = histories s @ [HistoryAdd r] \<and> drawingLine s' = None"
    using finishDrawline_direct [OF dl, of end' X pnow] by blast
qed

text \<open>The line \<open>line0\<close> in progress, with no anchor and with one.\<close>

lemma drawing0_facts:
  "drawingLine drawing0 = Some (Suc 0)" "obj drawing0 (Suc 0) = line0" "data_pens drawing0 = []"
  "emitted drawing0 = []" "histories drawing0 = []" "hookAccepts drawing0 p"
  "drawingLine (drawing0\<lparr>obj := f\<rparr>) = Some (Suc 0)" "data_pens (drawing0\<lparr>obj := f\<rparr>) = []"
  "emitted (drawing0\<lparr>obj := f\<rparr>) = []" "histories (drawing0\<lparr>obj := f\<rparr>) = []"
  "hookAccepts (drawing0\<lparr>obj := f\<rparr>) p"
  by (simp_all add: drawing0_def canvas0_def hookAccepts_def)

lemma line0_facts:
  "\<not> toConnected line0" "worldAnchors line0 = Some []" "worldFrom line0 \<noteq> None"
  "worldTo line0 \<noteq> None"
  "\<not> toConnected (line0\<lparr>worldAnchors := w\<rparr>)" "worldFrom (line0\<lparr>worldAnchors := w\<rparr>) \<noteq> None"
  by (simp_all add: line0_def toConnected_def anchorAt_def truthy_def)

theorem finishDrawline_adds_witness:
  "drawingLine (drawing0\<lparr>obj := (obj drawing0)(1 := line0\<lparr>worldAnchors := Some [anchorAt 50 50]\<rparr>)\<rparr>) = Some 1 \<and>
   after data_pens (finishDrawline ext0 0 False drawing0) = Some [] \<and>
   after emitted (finishDrawline ext0 0 False drawing0) = Some [] \<and>
   after data_pens (finishDrawline ext0 0 False
      (drawing0\<lparr>obj := (obj drawing0)(1 := line0\<lparr>worldAnchors := Some [anchorAt 50 50]\<rparr>)\<rparr>)) = Some [1] \<and>
   after emitted (finishDrawline ext0 0 False
      (drawing0\<lparr>obj := (obj drawing0)(1 := line0\<lparr>worldAnchors := Some [anchorAt 50 50]\<rparr>)\<rparr>)) =
      Some [AddPen 1, Active [1]] \<and>
   after histories (finishDrawline ext0 0 False
      (drawing0\<lparr>obj := (obj drawing0)(1 := line0\<lparr>worldAnchors := Some [anchorAt 50 50]\<rparr>)\<rparr>)) =
      Some [HistoryAdd 1]"
  using finishDrawline_adds [of drawing0 1 False ext0 0]
    finishDrawline_adds [of "drawing0\<lparr>obj := (obj drawing0)(1 := line0\<lparr>worldAnchors := Some [anchorAt 50 50]\<rparr>)\<rparr>" 1 False ext0 0]
  by (auto simp add: after_def drawing0_facts line0_facts)

text \<open>C3 as stated fails on the right-click path: finished with \<open>end\<close> and no committed
  anchor, the line is added, with its \<open>addPen\<close> event and its history record.\<close>

theorem finishDrawline_forced_counterexample:
  "worldAnchors (obj drawing0 1) = Some [] \<and>
   after data_pens (finishDrawline ext0 0 True drawing0) = Some [1] \<and>
   after emitted (finishDrawline ext0 0 True drawing0) = Some [AddPen 1, Active [1]] \<and>
   after histories (finishDrawline ext0 0 True drawing0) = Some [HistoryAdd 1]"
  using finishDrawline_direct [of drawing0 1 True ext0 0]
  by (auto simp add: after_def drawing0_facts line0_facts)

subsection \<open>Hit-testing\<close>

lemma firstHit_result:
  assumes "\<forall>i\<in>set js. i < length ps"
  shows "\<exists>c. firstHit X pt sz (Some ps) js = Inr c \<and>
           ((\<exists>i\<in>set js. hitPoint X pt (ps ! i) sz) \<longrightarrow> c \<noteq> None)"
  using assms by (induction js) auto

lemma hoverHandles_eq:
  assumes gate: "activeRect s = Some ar" "\<not> truthy (drawingLineName s)" "\<not> activeLine s"
      "data_locked s = Unlocked"
    and c: "(if hotkeyType s = NoHotkey \<or> hotkeyType s = HotResize
             then firstHit X pt (pointSize s) (sizeCPs s) [0, 1, 2, 3] else Inr None) = Inr c"
    and e: "(if hotkeyType s = HotResize
             then firstHit X pt (pointSize s) (sizeCPs s) [4, 5, 6, 7] else Inr None) = Inr e"
  shows "hoverHandles X pt s =
     Inr (case e of
            None \<Rightarrow> (case c of
                       None \<Rightarrow> (if \<not> options_disableRotate s \<and> hotkeyType s = NoHotkey \<and>
                                   hitPoint X pt (rotatePt ar) (pointSize s)
                                then Rotate else NoHover, s)
                     | Some i \<Rightarrow> (Resize, s\<lparr>resizeIndex := i\<rparr>))
          | Some j \<Rightarrow> (Resize, s\<lparr>resizeIndex := j\<rparr>))"
  unfolding hoverHandles_def Let_def
  apply (simp only: gate option.case if_True not_False_eq_True simp_thms c e andThen_def sum.case)
  apply (cases e; cases c; simp)
  done


lemma getHover_after_handles:
  assumes "hoverHandles X pt (s\<lparr>store_anchor := None, store_pointAt := None,
             store_pointAtIndex := None\<rparr>) = Inr (h, s1)" "h \<noteq> NoHover"
  shows "\<exists>s'. getHover X pt s = Inr s' \<and> hoverType s' = h \<and> store_hover s' = store_hover s1 \<and>
           store_anchor s' = store_anchor s1 \<and> store_pointAt s' = store_pointAt s1 \<and>
           store_pointAtIndex s' = store_pointAtIndex s1"
  using assms
  by (simp add: getHover_def andThen_def Let_def upd_pen_def split: option.splits)

text \<open>
  C4. Let the handle block of \<open>getHover\<close> be open (a selection that is not a single
  line, no line being drawn, the document unlocked) and the pointer hit an eligible
  handle: the rotate handle (rotation enabled, no hotkey), a corner (no hotkey, or the
  resize hotkey) or an edge midpoint (the resize hotkey). Then \<open>getHover\<close> reports
  \<open>Rotate\<close> or \<open>Resize\<close>, whatever pens cover the point: no pen becomes the hovered
  pen, and no anchor and no point on a pen is recorded.
\<close>

theorem getHover_handle_first:
  assumes gate: "activeRect s = Some ar" "\<not> truthy (drawingLineName s)" "\<not> activeLine s"
      "data_locked s = Unlocked"
    and cps: "sizeCPs s = Some cps" "8 \<le> length cps"
    and hit: "(\<not> options_disableRotate s \<and> hotkeyType s = NoHotkey \<and>
               hitPoint X pt (rotatePt ar) (pointSize s)) \<or>
              ((hotkeyType s = NoHotkey \<or> hotkeyType s = HotResize) \<and>
               (\<exists>i\<in>{0, 1, 2, 3}. hitPoint X pt (cps ! i) (pointSize s))) \<or>
              (hotkeyType s = HotResize \<and>
               (\<exists>i\<in>{4, 5, 6, 7}. hitPoint X pt (cps ! i) (pointSize s)))"
  shows "\<exists>s'. getHover X pt s = Inr s' \<and> handle (hoverType s') \<and>
           store_hover s' = store_hover s \<and> store_anchor s' = None \<and> store_pointAt s' = None \<and>
           store_pointAtIndex s' = None"
proof -
  let ?s0 = "s\<lparr>store_anchor := None, store_pointAt := None, store_pointAtIndex := None\<rparr>"
  have g0: "activeRect ?s0 = Some ar" "\<not> truthy (drawingLineName ?s0)" "\<not> activeLine ?s0"
    "data_locked ?s0 = Unlocked"
    using gate by (simp_all add: activeLine_def)
  have c4: "\<forall>i\<in>set [0, 1, 2, 3]. i < length cps" and e4: "\<forall>i\<in>set [4, 5, 6, 7]. i < length cps"
    using cps(2) by auto
  obtain c where c: "firstHit X pt (pointSize s) (Some cps) [0, 1, 2, 3] = Inr c"
    "(\<exists>i\<in>set [0, 1, 2, 3]. hitPoint X pt (cps ! i) (pointSize s)) \<longrightarrow> c \<noteq> None"
    using firstHit_result [OF c4] by blast
  obtain e where e: "firstHit X pt (pointSize s) (Some cps) [4, 5, 6, 7] = Inr e"
    "(\<exists>i\<in>set [4, 5, 6, 7]. hitPoint X pt (cps ! i) (pointSize s)) \<longrightarrow> e \<noteq> None"
    using firstHit_result [OF e4] by blast
  let ?c = "if hotkeyType ?s0 = NoHotkey \<or> hotkeyType ?s0 = HotResize then c else None"
  let ?e = "if hotkeyType ?s0 = HotResize then e else None"
  let ?h1 = "if \<not> options_disableRotate ?s0 \<and> hotkeyType ?s0 = NoHotkey \<and>
                hitPoint X pt (rotatePt ar) (pointSize ?s0) then Rotate else NoHover"
  let ?res = "case ?e of
            None \<Rightarrow> (case ?c of None \<Rightarrow> (?h1, ?s0) | Some i \<Rightarrow> (Resize, ?s0\<lparr>resizeIndex := i\<rparr>))
          | Some j \<Rightarrow> (Resize, ?s0\<lparr>resizeIndex := j\<rparr>)"
  have pc: "(if hotkeyType ?s0 = NoHotkey \<or> hotkeyType ?s0 = HotResize
             then firstHit X pt (pointSize ?s0) (sizeCPs ?s0) [0, 1, 2, 3] else Inr None) = Inr ?c"
    using c(1) cps(1) by (simp del: firstHit.simps)
  have pe: "(if hotkeyType ?s0 = HotResize
             then firstHit X pt (pointSize ?s0) (sizeCPs ?s0) [4, 5, 6, 7] else Inr None) = Inr ?e"
    using e(1) cps(1) by (simp del: firstHit.simps)
  have hh: "hoverHandles X pt ?s0 = Inr ?res"
    by (rule hoverHandles_eq [OF g0 pc pe])
  have c': "(\<exists>i\<in>{0, 1, 2, 3}. hitPoint X pt (cps ! i) (pointSize s)) \<Longrightarrow> c \<noteq> None"
    using c(2) by simp
  have e': "(\<exists>i\<in>{4, 5, 6, 7}. hitPoint X pt (cps ! i) (pointSize s)) \<Longrightarrow> e \<noteq> None"
    using e(2) by simp
  from hit consider
      (rot) "\<not> options_disableRotate s" "hotkeyType s = NoHotkey"
            "hitPoint X pt (rotatePt ar) (pointSize s)"
    | (corner) "hotkeyType s = NoHotkey \<or> hotkeyType s = HotResize" "c \<noteq> None"
    | (edge) "hotkeyType s = HotResize" "e \<noteq> None"
    using c' e' by blast
  then have cls: "fst ?res = Rotate \<or> fst ?res = Resize"
  proof cases
    case rot
    then show ?thesis by (cases c) simp_all
  next
    case corner
    then show ?thesis by (cases e; cases c) auto
  next
    case edge
    then show ?thesis by (cases e) simp_all
  qed
  have fr: "store_hover (snd ?res) = store_hover s" "store_anchor (snd ?res) = None"
    "store_pointAt (snd ?res) = None" "store_pointAtIndex (snd ?res) = None"
    by (simp_all split: option.splits)
  define h where "h = fst ?res"
  define s1 where "s1 = snd ?res"
  have hs: "hoverHandles X pt ?s0 = Inr (h, s1)"
    using hh by (simp add: h_def s1_def)
  have h: "h = Rotate \<or> h = Resize"
    using cls by (simp only: h_def)
  then have "h \<noteq> NoHover" by auto
  then obtain s' where "getHover X pt s = Inr s'" "hoverType s' = h"
    "store_hover s' = store_hover s1" "store_anchor s' = store_anchor s1"
    "store_pointAt s' = store_pointAt s1" "store_pointAtIndex s' = store_pointAtIndex s1"
    using getHover_after_handles [OF hs] by blast
  then show ?thesis using h fr by (auto simp only: s1_def handle_def)
qed

text \<open>The bottom-right corner of the selected \<open>pen0\<close>: the point hits the handle and
  lies in the body of the pen.\<close>

theorem getHover_handle_first_witness:
  "pointInRect ext0 \<lparr>pt_x = 110, pt_y = 70\<rparr> (Some (worldRect (obj selected0 1))) \<and>
   hitPoint ext0 \<lparr>pt_x = 110, pt_y = 70\<rparr> \<lparr>pt_x = 110, pt_y = 70\<rparr> (pointSize selected0) \<and>
   after (\<lambda>s. handle (hoverType s)) (getHover ext0 \<lparr>pt_x = 110, pt_y = 70\<rparr> selected0) = Some True \<and>
   after store_hover (getHover ext0 \<lparr>pt_x = 110, pt_y = 70\<rparr> selected0) = Some None"
  using getHover_handle_first [of selected0 rect0
      "[\<lparr>pt_x = 10, pt_y = 20\<rparr>, \<lparr>pt_x = 110, pt_y = 20\<rparr>,
        \<lparr>pt_x = 110, pt_y = 70\<rparr>, \<lparr>pt_x = 10, pt_y = 70\<rparr>,
        \<lparr>pt_x = 60, pt_y = 20\<rparr>, \<lparr>pt_x = 110, pt_y = 45\<rparr>,
        \<lparr>pt_x = 60, pt_y = 70\<rparr>, \<lparr>pt_x = 10, pt_y = 45\<rparr>]" ext0 "\<lparr>pt_x = 110, pt_y = 70\<rparr>"]
  by (auto simp add: after_def selected0_def canvas0_def activeLine_def truthy_def pen0_def
        rect0_def ext0_def)

subsection \<open>Resizing by a corner\<close>

lemma dirtyPenRect_frame:
  "activeRect (dirtyPenRect X r s) = activeRect s"
  "lastOffsetX (dirtyPenRect X r s) = lastOffsetX s"
  "lastOffsetY (dirtyPenRect X r s) = lastOffsetY s"
  "mouseDown (dirtyPenRect X r s) = mouseDown s"
  "resizeIndex (dirtyPenRect X r s) = resizeIndex s"
  "store_active (dirtyPenRect X r s) = store_active s"
  "activeInitPos (dirtyPenRect X r s) = activeInitPos s"
  "data_pens (dirtyPenRect X r s) = data_pens s"
  "q \<noteq> r \<Longrightarrow> obj (dirtyPenRect X r s) q = obj s q"
  "q \<noteq> r \<Longrightarrow> path2dMap (dirtyPenRect X r s) q = path2dMap s q"
  by (simp_all add: dirtyPenRect_def Let_def upd_pen_def set_path_def)

lemma resizeEach_frame:
  assumes "k + length rs \<le> length (activeInitPos s)"
  shows "\<exists>s'. resizeEach X ar sx sy (enumerate k rs) s = Inr s' \<and>
           activeRect s' = activeRect s \<and> lastOffsetX s' = lastOffsetX s \<and>
           lastOffsetY s' = lastOffsetY s \<and> mouseDown s' = mouseDown s \<and>
           resizeIndex s' = resizeIndex s \<and> store_active s' = store_active s \<and>
           activeInitPos s' = activeInitPos s"
  using assms
proof (induction rs arbitrary: k s)
  case Nil
  then show ?case by simp
next
  case (Cons r rs)
  show ?case
  proof (cases "truthy (pen_parentId (obj s r))")
    case True
    then show ?thesis using Cons.IH [of "Suc k" s] Cons.prems by simp
  next
    case False
    let ?s1 = "dirtyPenRect X r (upd_pen r (resizePen (activeInitPos s ! k) ar sx sy) s)"
    have "Suc k + length rs \<le> length (activeInitPos ?s1)"
      using Cons.prems by (simp add: dirtyPenRect_frame upd_pen_def)
    from Cons.IH [OF this] show ?thesis
      using False Cons.prems by (simp add: Let_def dirtyPenRect_frame upd_pen_def)
  qed
qed

lemma resizePens_step:
  assumes md: "mouseDown s = Some d" and ar: "activeRect s = Some ar"
    and rot: "rect_rotate ar = 0"
    and ip: "length (store_active s) \<le> length (activeInitPos s)"
  shows "\<exists>s'. resizePens X pnow e s = Inr s' \<and>
           activeRect s' = Some (calcCenter (resizeRect (resizeIndex s)
              (sub64 (sub64 (pt_x e) (pt_x d)) (lastOffsetX s))
              (sub64 (sub64 (pt_y e) (pt_y d)) (lastOffsetY s)) ar)) \<and>
           lastOffsetX s' = sub64 (pt_x e) (pt_x d) \<and>
           lastOffsetY s' = sub64 (pt_y e) (pt_y d) \<and>
           mouseDown s' = mouseDown s \<and> resizeIndex s' = resizeIndex s \<and>
           store_active s' = store_active s \<and> activeInitPos s' = activeInitPos s"
proof -
  let ?ar' = "calcCenter (resizeRect (resizeIndex s)
              (sub64 (sub64 (pt_x e) (pt_x d)) (lastOffsetX s))
              (sub64 (sub64 (pt_y e) (pt_y d)) (lastOffsetY s)) ar)"
  let ?s2 = "s\<lparr>lastOffsetX := sub64 (pt_x e) (pt_x d), lastOffsetY := sub64 (pt_y e) (pt_y d),
               activeRect := Some ?ar'\<rparr>"
  have "0 + length (store_active ?s2) \<le> length (activeInitPos ?s2)" using ip by simp
  from resizeEach_frame [OF this, of X ?ar' "div64 (rect_width ?ar') (rect_width ar)"
      "div64 (rect_height ?ar') (rect_height ar)"]
  obtain s3 where s3: "resizeEach X ?ar' (div64 (rect_width ?ar') (rect_width ar))
      (div64 (rect_height ?ar') (rect_height ar)) (enumerate 0 (store_active ?s2)) ?s2 = Inr s3"
    "activeRect s3 = activeRect ?s2" "lastOffsetX s3 = lastOffsetX ?s2"
    "lastOffsetY s3 = lastOffsetY ?s2" "mouseDown s3 = mouseDown ?s2"
    "resizeIndex s3 = resizeIndex ?s2" "store_active s3 = store_active ?s2"
    "activeInitPos s3 = activeInitPos ?s2"
    by blast
  have "resizePens X pnow e s =
          andThen (getSizeCPs s3) (\<lambda>s4. Inr (render pnow Infinity s4))"
    using md ar rot s3(1)
    by (simp add: resizePens_def Let_def rotatePoint_zero andThen_def)
  then show ?thesis
    using s3 md by (simp add: getSizeCPs_def andThen_def render_frame)
qed

lemma resizeRect_rotate: "rect_rotate (resizeRect i ox oy r) = rect_rotate r"
  by (simp add: resizeRect_def)

lemma resizeRect_bottom_right:
  "resizeRect 2 ox oy r = r\<lparr>rect_ex := add64 (rect_ex r) ox, rect_ey := add64 (rect_ey r) oy,
     rect_width := add64 (rect_width r) ox, rect_height := add64 (rect_height r) oy\<rparr>"
  by (simp add: resizeRect_def)

lemma resizeRect_top_left:
  "resizeRect 0 ox oy r = r\<lparr>rect_x := add64 (rect_x r) ox, rect_y := add64 (rect_y r) oy,
     rect_width := sub64 (rect_width r) ox, rect_height := sub64 (rect_height r) oy\<rparr>"
  by (simp add: resizeRect_def)

text \<open>A gesture on an unrotated rect returns. On the handle 2 it leaves \<open>x\<close> and \<open>y\<close>
  as they are and the width and the height are the sums \<open>grown\<close>; on the handle 0 it
  leaves \<open>ex\<close> and \<open>ey\<close> as they are.\<close>

lemma resizeMoves_inv:
  assumes "mouseDown s = Some d" "activeRect s = Some ar" "rect_rotate ar = 0"
    "length (store_active s) \<le> length (activeInitPos s)"
  shows "\<exists>s' ar'. resizeMoves X es s = Inr s' \<and> activeRect s' = Some ar' \<and>
           (resizeIndex s = 2 \<longrightarrow>
              rect_width ar' =
                grown (rect_width ar) (lastOffsetX s) (pt_x d) (map (\<lambda>p. pt_x (snd p)) es) \<and>
              rect_height ar' =
                grown (rect_height ar) (lastOffsetY s) (pt_y d) (map (\<lambda>p. pt_y (snd p)) es) \<and>
              rect_x ar' = rect_x ar \<and> rect_y ar' = rect_y ar) \<and>
           (resizeIndex s = 0 \<longrightarrow> rect_ex ar' = rect_ex ar \<and> rect_ey ar' = rect_ey ar)"
  using assms
proof (induction es arbitrary: s ar)
  case Nil
  then show ?case by simp
next
  case (Cons pe es)
  obtain pnow e where pe: "pe = (pnow, e)" by (cases pe)
  define ox where "ox = sub64 (sub64 (pt_x e) (pt_x d)) (lastOffsetX s)"
  define oy where "oy = sub64 (sub64 (pt_y e) (pt_y d)) (lastOffsetY s)"
  define ar1 where "ar1 = calcCenter (resizeRect (resizeIndex s) ox oy ar)"
  obtain s1 where s1: "resizePens X pnow e s = Inr s1" "activeRect s1 = Some ar1"
    "lastOffsetX s1 = sub64 (pt_x e) (pt_x d)" "lastOffsetY s1 = sub64 (pt_y e) (pt_y d)"
    "mouseDown s1 = mouseDown s" "resizeIndex s1 = resizeIndex s"
    "store_active s1 = store_active s" "activeInitPos s1 = activeInitPos s"
    using resizePens_step [OF Cons.prems(1,2,3,4), of X pnow e]
    unfolding ar1_def ox_def oy_def by blast
  have rot1: "rect_rotate ar1 = 0"
    using Cons.prems(3) by (simp add: ar1_def calcCenter_def resizeRect_rotate)
  have "mouseDown s1 = Some d" "length (store_active s1) \<le> length (activeInitPos s1)"
    using s1 Cons.prems by simp_all
  from Cons.IH [OF this(1) s1(2) rot1 this(2)]
  obtain s' ar' where r: "resizeMoves X es s1 = Inr s' \<and> activeRect s' = Some ar' \<and>
    (resizeIndex s1 = 2 \<longrightarrow>
       rect_width ar' =
         grown (rect_width ar1) (lastOffsetX s1) (pt_x d) (map (\<lambda>p. pt_x (snd p)) es) \<and>
       rect_height ar' =
         grown (rect_height ar1) (lastOffsetY s1) (pt_y d) (map (\<lambda>p. pt_y (snd p)) es) \<and>
       rect_x ar' = rect_x ar1 \<and> rect_y ar' = rect_y ar1) \<and>
    (resizeIndex s1 = 0 \<longrightarrow> rect_ex ar' = rect_ex ar1 \<and> rect_ey ar' = rect_ey ar1)"
    by (elim exE) (rule that)
  note r1 = r [THEN conjunct1]
    and r2 = r [THEN conjunct2, THEN conjunct1]
    and r3 = r [THEN conjunct2, THEN conjunct2, THEN conjunct1]
    and r4 = r [THEN conjunct2, THEN conjunct2, THEN conjunct2]
  have run: "resizeMoves X (pe # es) s = Inr s'"
    using s1(1) r1 by (simp add: pe andThen_def)
  have two: "resizeIndex s = 2 \<longrightarrow>
       rect_width ar' =
         grown (rect_width ar) (lastOffsetX s) (pt_x d) (map (\<lambda>p. pt_x (snd p)) (pe # es)) \<and>
       rect_height ar' =
         grown (rect_height ar) (lastOffsetY s) (pt_y d) (map (\<lambda>p. pt_y (snd p)) (pe # es)) \<and>
       rect_x ar' = rect_x ar \<and> rect_y ar' = rect_y ar"
    using r3 s1(3,4,6)
    by (simp add: pe ar1_def ox_def oy_def calcCenter_def resizeRect_bottom_right)
  have zero: "resizeIndex s = 0 \<longrightarrow> rect_ex ar' = rect_ex ar \<and> rect_ey ar' = rect_ey ar"
    using r4 s1(6) by (simp add: ar1_def calcCenter_def resizeRect_top_left)
  have "resizeMoves X (pe # es) s = Inr s' \<and> activeRect s' = Some ar' \<and>
           (resizeIndex s = 2 \<longrightarrow>
              rect_width ar' =
                grown (rect_width ar) (lastOffsetX s) (pt_x d) (map (\<lambda>p. pt_x (snd p)) (pe # es)) \<and>
              rect_height ar' =
                grown (rect_height ar) (lastOffsetY s) (pt_y d) (map (\<lambda>p. pt_y (snd p)) (pe # es)) \<and>
              rect_x ar' = rect_x ar \<and> rect_y ar' = rect_y ar) \<and>
           (resizeIndex s = 0 \<longrightarrow> rect_ex ar' = rect_ex ar \<and> rect_ey ar' = rect_ey ar)"
    using run r2 two zero by (intro conjI)
  then show ?case by (intro exI)
qed

lemma grown_pointer:
  assumes "k \<le> 52" "onGrid k w" "onGrid k d" "\<forall>e\<in>set es. onGrid k e" "es \<noteq> []"
  shows "grown w 0 d es = w + (last es - d)"
proof -
  obtain mw :: int where mw: "w * 2 ^ k = of_int mw" "\<bar>mw\<bar> \<le> 2 ^ 50"
    using onGrid_int [OF assms(2)] by blast
  obtain md :: int where md: "d * 2 ^ k = of_int md" "\<bar>md\<bar> \<le> 2 ^ 50"
    using onGrid_int [OF assms(3)] by blast
  have "(0::real) * 2 ^ k = of_int 0" "\<bar>0::int\<bar> \<le> 2 ^ 51" by simp_all
  from grown_grid [OF assms(1) mw this md assms(4)] show ?thesis
    using assms(5) by simp
qed

text \<open>
  C5, as the code has it. Let the active rect be unrotated and a resize gesture begin (the
  offsets applied so far are 0, and \<open>onMouseDown\<close> has recorded a position for every
  selected pen). After the move events of the gesture, the last at pointer \<open>e\<close> with
  the button down at \<open>d\<close>: with \<open>resizeIndex\<close> 2 the top-left corner \<open>(x, y)\<close> is where
  it was, and with \<open>resizeIndex\<close> 0 the bottom-right corner \<open>(ex, ey)\<close> is where it
  was. With \<open>resizeIndex\<close> 2 the width has grown by exactly \<open>e.x - d.x\<close> when the width
  and the horizontal coordinates of the pointer are on a grid of step \<open>2^(-k)\<close>, \<open>k\<close> at
  most 52, of at most \<open>2^50\<close> steps (whole pixels, half pixels), where the sums of the
  source are exact; so has the height by \<open>e.y - d.y\<close>, for the vertical coordinates.
\<close>

theorem resizePens_corners:
  assumes "mouseDown s = Some d" "activeRect s = Some ar" "rect_rotate ar = 0"
    "lastOffsetX s = 0" "lastOffsetY s = 0"
    "length (store_active s) \<le> length (activeInitPos s)"
    "es \<noteq> []" "snd (last es) = e"
  shows "\<exists>s' ar'. resizeMoves X es s = Inr s' \<and> activeRect s' = Some ar' \<and>
           (resizeIndex s = 2 \<longrightarrow>
              rect_x ar' = rect_x ar \<and> rect_y ar' = rect_y ar \<and>
              (k \<le> 52 \<and> onGrid k (rect_width ar) \<and> onGrid k (pt_x d) \<and>
               (\<forall>p\<in>set es. onGrid k (pt_x (snd p))) \<longrightarrow>
                 rect_width ar' = rect_width ar + (pt_x e - pt_x d)) \<and>
              (k \<le> 52 \<and> onGrid k (rect_height ar) \<and> onGrid k (pt_y d) \<and>
               (\<forall>p\<in>set es. onGrid k (pt_y (snd p))) \<longrightarrow>
                 rect_height ar' = rect_height ar + (pt_y e - pt_y d))) \<and>
           (resizeIndex s = 0 \<longrightarrow> rect_ex ar' = rect_ex ar \<and> rect_ey ar' = rect_ey ar)"
proof -
  obtain s' ar' where r: "resizeMoves X es s = Inr s' \<and> activeRect s' = Some ar' \<and>
    (resizeIndex s = 2 \<longrightarrow>
       rect_width ar' =
         grown (rect_width ar) (lastOffsetX s) (pt_x d) (map (\<lambda>p. pt_x (snd p)) es) \<and>
       rect_height ar' =
         grown (rect_height ar) (lastOffsetY s) (pt_y d) (map (\<lambda>p. pt_y (snd p)) es) \<and>
       rect_x ar' = rect_x ar \<and> rect_y ar' = rect_y ar) \<and>
    (resizeIndex s = 0 \<longrightarrow> rect_ex ar' = rect_ex ar \<and> rect_ey ar' = rect_ey ar)"
    using resizeMoves_inv [OF assms(1,2,3,6), of X es] by (elim exE) (rule that)
  note r1 = r [THEN conjunct1]
    and r2 = r [THEN conjunct2, THEN conjunct1]
    and r3 = r [THEN conjunct2, THEN conjunct2, THEN conjunct1]
    and r4 = r [THEN conjunct2, THEN conjunct2, THEN conjunct2]
  have lx: "last (map (\<lambda>p. pt_x (snd p)) es) = pt_x e"
    and ly: "last (map (\<lambda>p. pt_y (snd p)) es) = pt_y e"
    using assms(7,8) by (simp_all add: last_map)
  have two: "resizeIndex s = 2 \<longrightarrow>
              rect_x ar' = rect_x ar \<and> rect_y ar' = rect_y ar \<and>
              (k \<le> 52 \<and> onGrid k (rect_width ar) \<and> onGrid k (pt_x d) \<and>
               (\<forall>p\<in>set es. onGrid k (pt_x (snd p))) \<longrightarrow>
                 rect_width ar' = rect_width ar + (pt_x e - pt_x d)) \<and>
              (k \<le> 52 \<and> onGrid k (rect_height ar) \<and> onGrid k (pt_y d) \<and>
               (\<forall>p\<in>set es. onGrid k (pt_y (snd p))) \<longrightarrow>
                 rect_height ar' = rect_height ar + (pt_y e - pt_y d))"
  proof (intro impI conjI)
    assume i: "resizeIndex s = 2"
    show "rect_x ar' = rect_x ar" "rect_y ar' = rect_y ar" using r3 i by simp_all
    {
      assume g: "k \<le> 52 \<and> onGrid k (rect_width ar) \<and> onGrid k (pt_x d) \<and>
               (\<forall>p\<in>set es. onGrid k (pt_x (snd p)))"
      then have "\<forall>v\<in>set (map (\<lambda>p. pt_x (snd p)) es). onGrid k v" by simp
      with g have "grown (rect_width ar) 0 (pt_x d) (map (\<lambda>p. pt_x (snd p)) es) =
          rect_width ar + (last (map (\<lambda>p. pt_x (snd p)) es) - pt_x d)"
        using assms(7) by (intro grown_pointer) simp_all
      then show "rect_width ar' = rect_width ar + (pt_x e - pt_x d)"
        using r3 i assms(4) lx by simp
    }
    {
      assume g: "k \<le> 52 \<and> onGrid k (rect_height ar) \<and> onGrid k (pt_y d) \<and>
               (\<forall>p\<in>set es. onGrid k (pt_y (snd p)))"
      then have "\<forall>v\<in>set (map (\<lambda>p. pt_y (snd p)) es). onGrid k v" by simp
      with g have "grown (rect_height ar) 0 (pt_y d) (map (\<lambda>p. pt_y (snd p)) es) =
          rect_height ar + (last (map (\<lambda>p. pt_y (snd p)) es) - pt_y d)"
        using assms(7) by (intro grown_pointer) simp_all
      then show "rect_height ar' = rect_height ar + (pt_y e - pt_y d)"
        using r3 i assms(5) ly by simp
    }
  qed
  have "resizeMoves X es s = Inr s' \<and> activeRect s' = Some ar' \<and>
           (resizeIndex s = 2 \<longrightarrow>
              rect_x ar' = rect_x ar \<and> rect_y ar' = rect_y ar \<and>
              (k \<le> 52 \<and> onGrid k (rect_width ar) \<and> onGrid k (pt_x d) \<and>
               (\<forall>p\<in>set es. onGrid k (pt_x (snd p))) \<longrightarrow>
                 rect_width ar' = rect_width ar + (pt_x e - pt_x d)) \<and>
              (k \<le> 52 \<and> onGrid k (rect_height ar) \<and> onGrid k (pt_y d) \<and>
               (\<forall>p\<in>set es. onGrid k (pt_y (snd p))) \<longrightarrow>
                 rect_height ar' = rect_height ar + (pt_y e - pt_y d))) \<and>
           (resizeIndex s = 0 \<longrightarrow> rect_ex ar' = rect_ex ar \<and> rect_ey ar' = rect_ey ar)"
    using r1 r2 two r4 by (intro conjI)
  then show ?thesis by (intro exI)
qed

text \<open>Two moves on the half-pixel grid, to (120.5, 75) and to (130.5, 90.5): the rect
  of width 100 and height 50 at (10, 20) is 120.5 by 70.5 at (10, 20); with the
  top-left handle its far corner stays at (110, 70).\<close>

lemma resizing0_facts:
  "mouseDown resizing0 = Some \<lparr>pt_x = 110, pt_y = 70\<rparr>"
  "activeRect resizing0 = Some rect0"
  "lastOffsetX resizing0 = 0" "lastOffsetY resizing0 = 0"
  "length (store_active resizing0) \<le> length (activeInitPos resizing0)"
  by (simp_all add: resizing0_def selected0_def canvas0_def)

theorem resizePens_corners_witness:
  "onGrid 1 (241 / 2) \<and> onGrid 1 (261 / 2) \<and> onGrid 1 (181 / 2) \<and>
   after (\<lambda>s. map_option (\<lambda>r. (rect_x r, rect_y r, rect_width r, rect_height r)) (activeRect s))
     (resizeMoves ext0 [(0, \<lparr>pt_x = 241 / 2, pt_y = 75\<rparr>), (40, \<lparr>pt_x = 261 / 2, pt_y = 181 / 2\<rparr>)]
        (resizing0\<lparr>resizeIndex := 2\<rparr>)) = Some (Some (10, 20, 241 / 2, 141 / 2)) \<and>
   after (\<lambda>s. map_option (\<lambda>r. (rect_ex r, rect_ey r)) (activeRect s))
     (resizeMoves ext0 [(0, \<lparr>pt_x = 241 / 2, pt_y = 75\<rparr>), (40, \<lparr>pt_x = 261 / 2, pt_y = 181 / 2\<rparr>)]
        (resizing0\<lparr>resizeIndex := 0\<rparr>)) = Some (Some (110, 70))"
  using resizePens_corners [of "resizing0\<lparr>resizeIndex := 2\<rparr>" "\<lparr>pt_x = 110, pt_y = 70\<rparr>" rect0
      "[(0, \<lparr>pt_x = 241 / 2, pt_y = 75\<rparr>), (40, \<lparr>pt_x = 261 / 2, pt_y = 181 / 2\<rparr>)]"
      "\<lparr>pt_x = 261 / 2, pt_y = 181 / 2\<rparr>" ext0 1]
    resizePens_corners [of "resizing0\<lparr>resizeIndex := 0\<rparr>" "\<lparr>pt_x = 110, pt_y = 70\<rparr>" rect0
      "[(0, \<lparr>pt_x = 241 / 2, pt_y = 75\<rparr>), (40, \<lparr>pt_x = 261 / 2, pt_y = 181 / 2\<rparr>)]"
      "\<lparr>pt_x = 261 / 2, pt_y = 181 / 2\<rparr>" ext0 1]
  by (auto simp add: after_def resizing0_facts rect0_def onGrid_def simp del: resizeMoves.simps)

text \<open>The selection 300 wide, and what the sums of two moves round to.\<close>

lemma resizing1_facts:
  "mouseDown resizing1 = Some \<lparr>pt_x = 0, pt_y = 0\<rparr>"
  "activeRect resizing1 = Some rect1"
  "lastOffsetX resizing1 = 0" "lastOffsetY resizing1 = 0" "resizeIndex resizing1 = 2"
  "store_active resizing1 = [1]" "length (activeInitPos resizing1) = 1"
  by (simp_all add: resizing1_def resizing0_def selected0_def canvas0_def)

lemma grown_rounds:
  "grown 300 0 0 [toDouble (1 / 5), toDouble (1 / 10)] = 5279415031929241 / 2 ^ 44"
  "add64 300 (sub64 (toDouble (1 / 10)) 0) = 5279415031929242 / 2 ^ 44"
  by (simp_all add: double_literals add64_def sub64_def toDouble_def expo_def compute_bitlen
        pow2_def roundEven_def Let_def)

text \<open>
  C5 as stated fails where the sums round. The rect is 300 wide, the button goes down
  at 0, and the pointer moves to \<open>0.2\<close> and back to \<open>0.1\<close> (the doubles these
  literals denote): the width is \<open>300.09999999999997\<close>, one step of the doubles below
  \<open>300 + 0.1\<close> as JavaScript evaluates it, which is \<open>300.1\<close>, and different from the
  exact sum.
\<close>

theorem resizePens_rounding_counterexample:
  "resizeIndex resizing1 = 2 \<and> store_active resizing1 = [1] \<and>
   map_option (\<lambda>r. (rect_rotate r, rect_width r)) (activeRect resizing1) = Some (0, 300) \<and>
   mouseDown resizing1 = Some \<lparr>pt_x = 0, pt_y = 0\<rparr> \<and>
   after (\<lambda>s. map_option rect_width (activeRect s))
     (resizeMoves ext0 [(0, \<lparr>pt_x = toDouble (1 / 5), pt_y = 0\<rparr>),
                        (40, \<lparr>pt_x = toDouble (1 / 10), pt_y = 0\<rparr>)] resizing1) =
     Some (Some (5279415031929241 / 2 ^ 44)) \<and>
   add64 300 (sub64 (toDouble (1 / 10)) 0) = 5279415031929242 / 2 ^ 44 \<and>
   300 + (toDouble (1 / 10) - 0) = (5279415031929241 + 1229 / 2048) / 2 ^ 44 \<and>
   after (\<lambda>s. map_option rect_width (activeRect s))
     (resizeMoves ext0 [(0, \<lparr>pt_x = toDouble (1 / 5), pt_y = 0\<rparr>),
                        (40, \<lparr>pt_x = toDouble (1 / 10), pt_y = 0\<rparr>)] resizing1) \<noteq>
     Some (Some (add64 300 (sub64 (toDouble (1 / 10)) 0))) \<and>
   after (\<lambda>s. map_option rect_width (activeRect s))
     (resizeMoves ext0 [(0, \<lparr>pt_x = toDouble (1 / 5), pt_y = 0\<rparr>),
                        (40, \<lparr>pt_x = toDouble (1 / 10), pt_y = 0\<rparr>)] resizing1) \<noteq>
     Some (Some (300 + (toDouble (1 / 10) - 0)))"
proof -
  define moves where "moves = [(0::real, \<lparr>pt_x = toDouble (1 / 5), pt_y = 0\<rparr>),
      (40, \<lparr>pt_x = toDouble (1 / 10), pt_y = 0\<rparr>)]"
  have "rect_rotate rect1 = 0" "rect_width rect1 = 300" by (simp_all add: rect1_def)
  moreover have "length (store_active resizing1) \<le> length (activeInitPos resizing1)"
    by (simp add: resizing1_facts)
  ultimately obtain s' ar' where "resizeMoves ext0 moves resizing1 = Inr s'"
    "activeRect s' = Some ar'"
    "rect_width ar' = grown 300 0 0 [toDouble (1 / 5), toDouble (1 / 10)]"
    using resizeMoves_inv [of resizing1 "\<lparr>pt_x = 0, pt_y = 0\<rparr>" rect1 ext0 moves]
    by (auto simp add: resizing1_facts moves_def simp del: resizeMoves.simps grown.simps)
  then have w: "after (\<lambda>s. map_option rect_width (activeRect s))
      (resizeMoves ext0 moves resizing1) = Some (Some (5279415031929241 / 2 ^ 44))"
    by (simp add: after_def grown_rounds(1) del: resizeMoves.simps grown.simps)
  have x: "300 + (toDouble (1 / 10) - 0) = (5279415031929241 + 1229 / 2048) / 2 ^ 44"
    by (simp add: double_literals)
  have r: "map_option (\<lambda>r. (rect_rotate r, rect_width r)) (activeRect resizing1) = Some (0, 300)"
    by (simp add: resizing1_facts rect1_def)
  have n1: "after (\<lambda>s. map_option rect_width (activeRect s))
      (resizeMoves ext0 moves resizing1) \<noteq> Some (Some (add64 300 (sub64 (toDouble (1 / 10)) 0)))"
    unfolding w grown_rounds(2) by simp
  have n2: "after (\<lambda>s. map_option rect_width (activeRect s))
      (resizeMoves ext0 moves resizing1) \<noteq> Some (Some (300 + (toDouble (1 / 10) - 0)))"
    unfolding w x by simp
  show ?thesis
    using resizing1_facts(1,5,6) r w grown_rounds(2) x n1 n2
    unfolding moves_def by (intro conjI)
qed

subsection \<open>The active rect\<close>

text \<open>
  C6. \<open>calcActiveRect\<close> returns for every selection. With exactly one pen selected
  the active rect has that pen's rotation and is the pen's world rect (the same
  position and size as before, the center recomputed); with more than one pen
  selected its rotation is 0, whatever the rotations of the pens.
\<close>

theorem calcActiveRect_rotation:
  "\<exists>s' ar'. calcActiveRect X s = Inr s' \<and> activeRect s' = Some ar' \<and>
     (\<forall>a. store_active s = [a] \<longrightarrow>
        rect_rotate ar' = pen_rotate (obj s a) \<and>
        pen_rotate (obj s' a) = pen_rotate (obj s a) \<and>
        worldRect (obj s' a) = ar' \<and>
        ar' = calcCenter ((worldRect (obj s a))\<lparr>rect_rotate := pen_rotate (obj s a)\<rparr>) \<and>
        rect_x ar' = rect_x (worldRect (obj s a)) \<and> rect_y ar' = rect_y (worldRect (obj s a)) \<and>
        rect_width ar' = rect_width (worldRect (obj s a)) \<and>
        rect_height ar' = rect_height (worldRect (obj s a)) \<and>
        rect_ex ar' = rect_ex (worldRect (obj s a)) \<and> rect_ey ar' = rect_ey (worldRect (obj s a))) \<and>
     (1 < length (store_active s) \<longrightarrow>
        rect_rotate ar' = 0 \<and>
        ar' = (getRect X (map (obj s) (store_active s)))\<lparr>rect_rotate := 0\<rparr>)"
proof (cases "length (store_active s) = 1")
  case True
  then obtain a where a: "store_active s = [a]"
    by (cases "store_active s") auto
  show ?thesis
    using a by (simp add: calcActiveRect_def getSizeCPs_def Let_def upd_pen_def calcCenter_def)
next
  case False
  then have "\<And>a. store_active s \<noteq> [a]" by auto
  then show ?thesis
    using False by (simp add: calcActiveRect_def getSizeCPs_def Let_def)
qed

text \<open>The pen rotated by 30 alone, and together with the pen rotated by 45.\<close>

theorem calcActiveRect_rotation_witness:
  "after (\<lambda>s. map_option rect_rotate (activeRect s)) (calcActiveRect ext0 rotated0) = Some (Some 30) \<and>
   pen_rotate (obj (rotated0\<lparr>store_active := [1, 2]\<rparr>) 1) = 30 \<and>
   pen_rotate (obj (rotated0\<lparr>store_active := [1, 2]\<rparr>) 2) = 45 \<and>
   after (\<lambda>s. map_option rect_rotate (activeRect s))
     (calcActiveRect ext0 (rotated0\<lparr>store_active := [1, 2]\<rparr>)) = Some (Some 0)"
  using calcActiveRect_rotation [of ext0 rotated0]
    calcActiveRect_rotation [of ext0 "rotated0\<lparr>store_active := [1, 2]\<rparr>"]
  by (auto simp add: after_def rotated0_def selected0_def canvas0_def)

subsection \<open>Bezier handles\<close>

lemma point_eta: "\<lparr>pt_x = pt_x (e :: point), pt_y = pt_y e\<rparr> = e"
  by simp

lemma rotatePoint_half_turn:
  "rotatePoint p 180 c = \<lparr>pt_x = 2 * pt_x c - pt_x p, pt_y = 2 * pt_y c - pt_y p\<rparr>"
  by (simp add: rotatePoint_def)

lemma dirtyLine_frame:
  assumes "store_active s \<noteq> []"
  shows "\<exists>s'. dirtyLine pnow s = Inr s' \<and> store_anchor s' = store_anchor s \<and>
           activeRect s' = activeRect s \<and> data_locked s' = data_locked s \<and>
           store_active s' = store_active s \<and> prevAnchor s' = prevAnchor s \<and>
           nextAnchor s' = nextAnchor s"
  using assms
  by (cases "store_active s") (simp_all add: dirtyLine_def render_frame set_path_def upd_pen_def)

text \<open>
  During a drag of \<open>anchor.next\<close> (there is an active rect, the document is unlocked,
  the line is selected) on an anchor that has both handles and whose \<open>prevNextType\<close>
  is unset, \<open>moveLineAnchorNext\<close> at the point \<open>P\<close> puts \<open>anchor.next\<close> at \<open>P\<close> and
  \<open>anchor.prev\<close> at \<open>P\<close> rotated by 180 degrees about the anchor, which is the point
  \<open>2 * anchor - P\<close>.
\<close>

lemma moveLineAnchorNext_mirror:
  assumes "activeRect s \<noteq> None" "data_locked s = Unlocked" "store_active s \<noteq> []"
    and "store_anchor s = Some a" "anchor_prevNextType a = None"
    and "anchor_next a \<noteq> None" "anchor_prev a \<noteq> None"
  shows "\<exists>s' a'. moveLineAnchorNext X pnow P s = Inr s' \<and> store_anchor s' = Some a' \<and>
           anchor_x a' = anchor_x a \<and> anchor_y a' = anchor_y a \<and>
           anchor_next a' = Some P \<and>
           anchor_prev a' = Some (rotatePoint P 180 (anchor_pt a)) \<and>
           rotatePoint P 180 (anchor_pt a) =
             \<lparr>pt_x = 2 * anchor_x a - pt_x P, pt_y = 2 * anchor_y a - pt_y P\<rparr>"
proof -
  let ?a' = "a\<lparr>anchor_next := Some P, anchor_prev := Some (rotatePoint P 180 (anchor_pt a))\<rparr>"
  let ?s1 = "s\<lparr>store_anchor := Some ?a'\<rparr>"
  have "store_active ?s1 \<noteq> []" using assms(3) by simp
  from dirtyLine_frame [OF this, of pnow]
  obtain s' where s': "dirtyLine pnow ?s1 = Inr s'" "store_anchor s' = store_anchor ?s1"
    by blast
  have "moveLineAnchorNext X pnow P s = Inr s'"
    using assms s'(1)
    by (auto simp add: moveLineAnchorNext_def Let_def anchor_pt_def point_eta)
  then show ?thesis
    using s'(2) by (simp add: rotatePoint_half_turn anchor_pt_def)
qed

text \<open>The anchor at (100, 100) with both handles and \<open>P\<close> = (120, 80): \<open>prev\<close> becomes
  (80, 120).\<close>

lemma moveLineAnchorNext_mirror_example:
  "anchor_pt handles0 = \<lparr>pt_x = 100, pt_y = 100\<rparr> \<and> anchor_prevNextType handles0 = None \<and>
   after (\<lambda>s. map_option anchor_prev (store_anchor s))
     (moveLineAnchorNext ext0 0 \<lparr>pt_x = 120, pt_y = 80\<rparr> editing0) =
     Some (Some (Some \<lparr>pt_x = 80, pt_y = 120\<rparr>))"
  using moveLineAnchorNext_mirror [of editing0 handles0 ext0 0 "\<lparr>pt_x = 120, pt_y = 80\<rparr>"]
  by (auto simp add: after_def editing0_def selected0_def canvas0_def handles0_def anchorAt_def
        anchor_pt_def)

text \<open>The hit test on the handle \<open>next\<close> of the anchor \<open>start0\<close>, which has no
  handle \<open>prev\<close>: \<open>inAnchor\<close> asks for \<open>anchor.next\<close> only.\<close>

lemma curve0_hover:
  "getHover ext0 \<lparr>pt_x = 100, pt_y = 120\<rparr> curve0 =
     Inr (curve0\<lparr>store_anchor := Some start0, store_hover := Some 1, hoverType := LineAnchorNext,
            dirty := True,
            obj := (obj curve0)(1 := (obj curve0 1)\<lparr>calc_hover := True\<rparr>),
            emitted := [Enter 1], store_lastHover := Some 1\<rparr>)"
  by (simp add: getHover_def hoverHandles_def activeLine_def curve0_def selected0_def canvas0_def
        line0_def pen0_def truthy_def andThen_def penAnchors_def inAnchor_def start0_def
        anchorAt_def anchor_pt_def ext0_def upd_pen_def Let_def fun_upd_def)

text \<open>
  C7 fails on an anchor that has the handle \<open>next\<close> and no handle \<open>prev\<close>. The anchor
  \<open>start0\<close> at (100, 100) is the first anchor of the selected line, its
  \<open>prevNextType\<close> is unset. The hit test at its handle \<open>next\<close> answers
  \<open>LineAnchorNext\<close> and makes it \<open>store.anchor\<close>, the button-down copies the absent
  \<open>prev\<close>, and the first move, to \<open>P\<close> = (120, 80), throws at
  \<open>this.store.anchor.prev.x = e.x\<close>: no \<open>prev\<close> is placed at (80, 120), the line is
  not marked dirty and nothing is rendered.
\<close>

theorem moveLineAnchorNext_no_prev:
  "anchor_pt start0 = \<lparr>pt_x = 100, pt_y = 100\<rparr> \<and> anchor_prevNextType start0 = None \<and>
   anchor_next start0 = Some \<lparr>pt_x = 100, pt_y = 120\<rparr> \<and> anchor_prev start0 = None \<and>
   after hoverType (getHover ext0 \<lparr>pt_x = 100, pt_y = 120\<rparr> curve0) = Some LineAnchorNext \<and>
   after store_anchor (getHover ext0 \<lparr>pt_x = 100, pt_y = 120\<rparr> curve0) = Some (Some start0) \<and>
   andThen (getHover ext0 \<lparr>pt_x = 100, pt_y = 120\<rparr> curve0)
     (dragNext ext0 [(0, \<lparr>pt_x = 120, pt_y = 80\<rparr>)]) = Inl TypeError"
  by (simp add: curve0_hover after_def andThen_def dragNext_def onMouseDown_backup_def
        moveLineAnchorNext_def Let_def)
    (simp add: curve0_def selected0_def canvas0_def start0_def anchorAt_def anchor_pt_def)

subsection \<open>Zoom bounds\<close>

text \<open>
  C10. A zoom factor below \<open>options.minScale\<close> or above \<open>options.maxScale\<close> makes
  \<open>scale\<close> return at once: the state after the call is the state before it, so the
  scale, the offset, every pen, the active rect and the emitted events are unchanged.
\<close>

theorem scale_out_of_bounds:
  assumes "sc < options_minScale s \<or> sc > options_maxScale s"
  shows "scale X pnow sc center s = Inr s"
  using assms by (simp add: scale_def)

theorem scale_out_of_bounds_witness:
  "(4 / 10 < options_minScale canvas0 \<or> 4 / 10 > options_maxScale canvas0) \<and>
   (11 < options_minScale canvas0 \<or> 11 > options_maxScale canvas0) \<and>
   scale ext0 0 (4 / 10) \<lparr>pt_x = 5, pt_y = 5\<rparr> canvas0 = Inr canvas0 \<and>
   scale ext0 0 11 \<lparr>pt_x = 5, pt_y = 5\<rparr> canvas0 = Inr canvas0"
  using scale_out_of_bounds [of "4 / 10" canvas0 ext0 0 "\<lparr>pt_x = 5, pt_y = 5\<rparr>"]
    scale_out_of_bounds [of 11 canvas0 ext0 0 "\<lparr>pt_x = 5, pt_y = 5\<rparr>"]
  by (simp add: canvas0_def)


subsection \<open>The bilateral handle\<close>

lemma rotation_norm:
  fixes dx dy c s :: real
  assumes "s\<^sup>2 + c\<^sup>2 = 1"
  shows "(dx * c - dy * s)\<^sup>2 + (dx * s + dy * c)\<^sup>2 = dx\<^sup>2 + dy\<^sup>2"
proof -
  have "(dx * c - dy * s)\<^sup>2 + (dx * s + dy * c)\<^sup>2 = (dx\<^sup>2 + dy\<^sup>2) * (s\<^sup>2 + c\<^sup>2)"
    by (simp add: power2_eq_square algebra_simps)
  then show ?thesis using assms by simp
qed

lemma rotatePoint_distance: "distance (rotatePoint p angle c) c = distance p c"
  using rotation_norm [OF sin_cos_squared_add, of "pt_x p - pt_x c" "angle * pi / 180"
      "pt_y p - pt_y c"]
  by (simp add: distance_def rotatePoint_def Let_def)

lemma moveLineAnchorNext_bilateral:
  assumes "activeRect s \<noteq> None" "data_locked s = Unlocked" "store_active s \<noteq> []"
    and "store_anchor s = Some a" "anchor_prevNextType a = Some Bilateral"
    and "anchor_next a \<noteq> None" "anchor_prev a \<noteq> None"
    and "prevAnchor s = Some pv" "nextAnchor s = Some nx"
  shows "\<exists>s'. moveLineAnchorNext X pnow e s = Inr s' \<and>
           store_anchor s' = Some (a\<lparr>anchor_next := Some e, anchor_prev := Some
             (rotatePoint pv (calcRotate X e (anchor_pt a) - calcRotate X nx (anchor_pt a))
                (anchor_pt a))\<rparr>) \<and>
           activeRect s' = activeRect s \<and> data_locked s' = data_locked s \<and>
           store_active s' = store_active s \<and> prevAnchor s' = prevAnchor s \<and>
           nextAnchor s' = nextAnchor s"
proof -
  let ?a' = "a\<lparr>anchor_next := Some e, anchor_prev := Some
             (rotatePoint pv (calcRotate X e (anchor_pt a) - calcRotate X nx (anchor_pt a))
                (anchor_pt a))\<rparr>"
  let ?s1 = "s\<lparr>store_anchor := Some ?a'\<rparr>"
  have "store_active ?s1 \<noteq> []" using assms(3) by simp
  from dirtyLine_frame [OF this, of pnow]
  obtain s' where s': "dirtyLine pnow ?s1 = Inr s' \<and> store_anchor s' = store_anchor ?s1 \<and>
           activeRect s' = activeRect ?s1 \<and> data_locked s' = data_locked ?s1 \<and>
           store_active s' = store_active ?s1 \<and> prevAnchor s' = prevAnchor ?s1 \<and>
           nextAnchor s' = nextAnchor ?s1"
    by (elim exE) (rule that)
  have "moveLineAnchorNext X pnow e s = Inr s'"
    using assms s' [THEN conjunct1]
    by (auto simp add: moveLineAnchorNext_def Let_def anchor_pt_def point_eta)
  then show ?thesis
    using s' [THEN conjunct2] by simp
qed

lemma nextMoves_bilateral:
  assumes "activeRect s \<noteq> None" "data_locked s = Unlocked" "store_active s \<noteq> []"
    and "store_anchor s = Some a" "anchor_prevNextType a = Some Bilateral"
    and "anchor_next a \<noteq> None" "anchor_prev a \<noteq> None"
    and "prevAnchor s = Some pv" "nextAnchor s = Some nx"
    and "es \<noteq> []"
  shows "\<exists>s'. nextMoves X es s = Inr s' \<and>
           store_anchor s' = Some (a\<lparr>anchor_next := Some (snd (last es)), anchor_prev := Some
             (rotatePoint pv (calcRotate X (snd (last es)) (anchor_pt a) -
                calcRotate X nx (anchor_pt a)) (anchor_pt a))\<rparr>)"
  using assms
proof (induction es arbitrary: s a)
  case Nil
  then show ?case by simp
next
  case (Cons pe es)
  obtain pnow e where pe: "pe = (pnow, e)" by (cases pe)
  let ?a1 = "a\<lparr>anchor_next := Some e, anchor_prev := Some
             (rotatePoint pv (calcRotate X e (anchor_pt a) - calcRotate X nx (anchor_pt a))
                (anchor_pt a))\<rparr>"
  from moveLineAnchorNext_bilateral [OF Cons.prems(1-9), of X pnow e]
  obtain s1 where s1: "moveLineAnchorNext X pnow e s = Inr s1 \<and>
           store_anchor s1 = Some ?a1 \<and>
           activeRect s1 = activeRect s \<and> data_locked s1 = data_locked s \<and>
           store_active s1 = store_active s \<and> prevAnchor s1 = prevAnchor s \<and>
           nextAnchor s1 = nextAnchor s"
    by (elim exE) (rule that)
  show ?case
  proof (cases "es = []")
    case True
    then show ?thesis using s1 by (simp add: pe andThen_def)
  next
    case False
    have p: "activeRect s1 \<noteq> None" "data_locked s1 = Unlocked" "store_active s1 \<noteq> []"
      "store_anchor s1 = Some ?a1" "anchor_prevNextType ?a1 = Some Bilateral"
      "anchor_next ?a1 \<noteq> None" "anchor_prev ?a1 \<noteq> None"
      "prevAnchor s1 = Some pv" "nextAnchor s1 = Some nx"
      using s1 Cons.prems by simp_all
    have pt: "anchor_pt ?a1 = anchor_pt a" by (simp add: anchor_pt_def)
    from Cons.IH [OF p False]
    show ?thesis
      using s1 False by (simp add: pe andThen_def pt)
  qed
qed

text \<open>
  C8. Let an anchor with \<open>prevNextType\<close> Bilateral have the handles \<open>prev = pv\<close> and
  \<open>next = nx\<close> when the button goes down on \<open>next\<close>, where \<open>onMouseDown\<close> copies them.
  After the moves of the drag, the last at \<open>e\<close>, \<open>anchor.next\<close> is at \<open>e\<close> and
  \<open>anchor.prev\<close> is \<open>pv\<close> rotated about the anchor by \<open>delta\<close>, the angle of \<open>e\<close>
  about the anchor minus the angle of \<open>nx\<close> about the anchor (both by \<open>calcRotate\<close>);
  its distance from the anchor is that of \<open>pv\<close>.
\<close>

theorem dragNext_bilateral:
  assumes "activeRect s \<noteq> None" "data_locked s = Unlocked" "store_active s \<noteq> []"
    and "store_anchor s = Some a" "anchor_prevNextType a = Some Bilateral"
    and "anchor_prev a = Some pv" "anchor_next a = Some nx"
    and "es \<noteq> []" "snd (last es) = e"
    and "delta = calcRotate X e (anchor_pt a) - calcRotate X nx (anchor_pt a)"
  shows "\<exists>s' a'. dragNext X es s = Inr s' \<and> store_anchor s' = Some a' \<and>
           anchor_pt a' = anchor_pt a \<and> anchor_next a' = Some e \<and>
           anchor_prev a' = Some (rotatePoint pv delta (anchor_pt a)) \<and>
           distance (rotatePoint pv delta (anchor_pt a)) (anchor_pt a) = distance pv (anchor_pt a)"
proof -
  let ?s0 = "s\<lparr>prevAnchor := anchor_prev a, nextAnchor := anchor_next a\<rparr>"
  have b: "onMouseDown_backup s = Inr ?s0"
    using assms(4) by (simp add: onMouseDown_backup_def)
  have p: "activeRect ?s0 \<noteq> None" "data_locked ?s0 = Unlocked" "store_active ?s0 \<noteq> []"
    "store_anchor ?s0 = Some a" "anchor_prevNextType a = Some Bilateral"
    "anchor_next a \<noteq> None" "anchor_prev a \<noteq> None"
    "prevAnchor ?s0 = Some pv" "nextAnchor ?s0 = Some nx"
    using assms by simp_all
  from nextMoves_bilateral [OF p assms(8), of X]
  obtain s' where s': "nextMoves X es ?s0 = Inr s' \<and>
           store_anchor s' = Some (a\<lparr>anchor_next := Some (snd (last es)), anchor_prev := Some
             (rotatePoint pv (calcRotate X (snd (last es)) (anchor_pt a) -
                calcRotate X nx (anchor_pt a)) (anchor_pt a))\<rparr>)"
    by (elim exE) (rule that)
  have "dragNext X es s = Inr s'"
    using b s' by (simp add: dragNext_def andThen_def)
  then show ?thesis
    using s' assms(9,10) by (simp add: rotatePoint_distance anchor_pt_def)
qed

text \<open>The handle \<open>next\<close> dragged from below the anchor to its right, a change of -90
  degrees: \<open>prev\<close> goes from above the anchor to its left, at the same distance.\<close>

theorem dragNext_bilateral_witness:
  "calcRotate ext0 \<lparr>pt_x = 130, pt_y = 100\<rparr> \<lparr>pt_x = 100, pt_y = 100\<rparr> -
     calcRotate ext0 \<lparr>pt_x = 100, pt_y = 120\<rparr> \<lparr>pt_x = 100, pt_y = 100\<rparr> = - 90 \<and>
   after (\<lambda>s. map_option anchor_prev (store_anchor s))
     (dragNext ext0 [(0, \<lparr>pt_x = 120, pt_y = 110\<rparr>), (40, \<lparr>pt_x = 130, pt_y = 100\<rparr>)]
        (editing0\<lparr>store_anchor := Some (handles0\<lparr>anchor_prevNextType := Some Bilateral\<rparr>)\<rparr>)) =
     Some (Some (Some \<lparr>pt_x = 80, pt_y = 100\<rparr>)) \<and>
   distance \<lparr>pt_x = 80, pt_y = 100\<rparr> \<lparr>pt_x = 100, pt_y = 100\<rparr> =
     distance \<lparr>pt_x = 100, pt_y = 80\<rparr> \<lparr>pt_x = 100, pt_y = 100\<rparr>"
  using dragNext_bilateral [of
      "editing0\<lparr>store_anchor := Some (handles0\<lparr>anchor_prevNextType := Some Bilateral\<rparr>)\<rparr>"
      "handles0\<lparr>anchor_prevNextType := Some Bilateral\<rparr>"
      "\<lparr>pt_x = 100, pt_y = 80\<rparr>" "\<lparr>pt_x = 100, pt_y = 120\<rparr>"
      "[(0, \<lparr>pt_x = 120, pt_y = 110\<rparr>), (40, \<lparr>pt_x = 130, pt_y = 100\<rparr>)]"
      "\<lparr>pt_x = 130, pt_y = 100\<rparr>" "- 90" ext0]
  by (auto simp add: after_def editing0_def selected0_def canvas0_def handles0_def anchorAt_def
        anchor_pt_def ext0_def rotatePoint_def simp del: nextMoves.simps)

subsection \<open>Connected lines stay, the others move\<close>
















end
